theory Spec2Isabelle
  imports Main "HOL-Library.Word" "HOL-Library.Multiset"
begin

unbundle bit_operations_syntax

text \<open>
  A shallow embedding of the SVG support of the word-processing package: registering
  an SVG image with its PNG fallback (\<^verbatim>\<open>Document.AddImageSVG\<close>), building the inline
  drawing with a preferred and a fallback branch (\<^verbatim>\<open>Run.AddDrawingInlineSVG\<close>), and the
  XML marshalling of the \<^verbatim>\<open>asvg:svgBlip\<close> extension payload and of the
  \<^verbatim>\<open>mc:AlternateContent\<close> wrapper. The definitions come first, file by file; the
  properties follow.
\<close>

section \<open>Errors\<close>

text \<open>
  The Go code builds its errors with \<^verbatim>\<open>errors.New\<close> and \<^verbatim>\<open>fmt.Errorf\<close>. The constructor
  records the class that the specification's taxonomy gives to each message; the
  string is the message of the source. \<open>Wrapped\<close> is \<^verbatim>\<open>fmt.Errorf("...: %w", err)\<close>.
  \<open>EncodeError\<close> and \<open>DecodeError\<close> are the errors of \<^verbatim>\<open>encoding/xml\<close>.
\<close>

datatype error =
    ValidationError string
  | ReferenceError string
  | StorageError string
  | EncodeError string
  | DecodeError string
  | Wrapped string error

section \<open>The XML token layer (\<^verbatim>\<open>encoding/xml\<close>)\<close>

text \<open>
  \<^verbatim>\<open>xml.Name\<close>, \<^verbatim>\<open>xml.Attr\<close>, \<^verbatim>\<open>xml.StartElement\<close> and the tokens the marshalling
  code of this repository writes and reads.
\<close>

record xml_Name =
  Space :: string
  Local :: string

record xml_Attr =
  Name :: xml_Name
  Value :: string

record xml_StartElement =
  Name :: xml_Name
  Attr :: "xml_Attr list"

datatype xml_Token =
    StartElement xml_StartElement
  | EndElement xml_Name
  | CharData string

subsection \<open>The characters the encoder writes\<close>

text \<open>
  A Go string is a sequence of bytes, read as UTF-8; a rune is an \<^verbatim>\<open>int32\<close>, here an
  integer. \<open>DecodeRune\<close> is \<^verbatim>\<open>utf8.DecodeRune\<close>: the first rune of the bytes and its
  width, or \<open>RuneError\<close> with width 1 where the bytes are not the UTF-8 encoding of a
  rune (a stray continuation byte, a truncated or overlong form, a surrogate, a value
  above U+10FFFF). \<open>isInCharacterRange\<close> is the encoder's test for the characters
  XML allows.
\<close>

definition RuneError :: int where
  "RuneError = 0xFFFD"

definition isInCharacterRange :: "int \<Rightarrow> bool" where
  "isInCharacterRange r =
     (r = 0x09 \<or> r = 0x0A \<or> r = 0x0D \<or>
      (0x20 \<le> r \<and> r \<le> 0xD7FF) \<or>
      (0xE000 \<le> r \<and> r \<le> 0xFFFD) \<or>
      (0x10000 \<le> r \<and> r \<le> 0x10FFFF))"

definition DecodeRune :: "string \<Rightarrow> int \<times> nat" where
  "DecodeRune p =
     (case p of
        [] \<Rightarrow> (RuneError, 0)
      | c # cs \<Rightarrow>
          (let p0 = (of_char c :: int)
           in if p0 < 0x80 then (p0, 1)
              else if p0 < 0xC2 \<or> 0xF4 < p0 then (RuneError, 1)
              else
                let sz = (if p0 < 0xE0 then 2 else if p0 < 0xF0 then 3 else 4 :: nat);
                    lo = (if p0 = 0xE0 then 0xA0 else if p0 = 0xF0 then 0x90 else 0x80 :: int);
                    hi = (if p0 = 0xED then 0x9F else if p0 = 0xF4 then 0x8F else 0xBF :: int)
                in if length p < sz then (RuneError, 1)
                   else
                     let b1 = (of_char (p ! 1) :: int)
                     in if b1 < lo \<or> hi < b1 then (RuneError, 1)
                        else if sz \<le> 2 then (p0 mod 32 * 64 + b1 mod 64, 2)
                        else
                          let b2 = (of_char (p ! 2) :: int)
                          in if b2 < 0x80 \<or> 0xBF < b2 then (RuneError, 1)
                             else if sz \<le> 3
                             then (p0 mod 16 * 4096 + b1 mod 64 * 64 + b2 mod 64, 3)
                             else
                               let b3 = (of_char (p ! 3) :: int)
                               in if b3 < 0x80 \<or> 0xBF < b3 then (RuneError, 1)
                                  else (p0 mod 8 * 262144 + b1 mod 64 * 4096
                                          + b2 mod 64 * 64 + b3 mod 64, 4)))"

text \<open>
  \<open>EscapeString\<close> is the loop of \<^verbatim>\<open>printer.EscapeString\<close>, rune by rune, at the level of
  characters: a rune XML does not allow, and a byte that is not part of the encoding
  of a rune, is written as U+FFFD (the bytes \<^verbatim>\<open>EF BF BD\<close>); any other rune is written
  as it is. The encoder writes the five markup characters, tab, newline and carriage
  return as character references, which the reader resolves to the same characters,
  so at this level they are written as they are. \<open>pending\<close> counts the bytes of the
  current rune that the loop still has to step over.
\<close>

definition escFFFD :: string where
  "escFFFD = [CHR 0xEF, CHR 0xBF, CHR 0xBD]"

fun EscapeString_from :: "nat \<Rightarrow> string \<Rightarrow> string" where
  "EscapeString_from pending [] = []"
| "EscapeString_from (Suc pending) (c # cs) = EscapeString_from pending cs"
| "EscapeString_from 0 (c # cs) =
     (let (r, width) = DecodeRune (c # cs)
      in (if \<not> isInCharacterRange r \<or> (r = RuneError \<and> width = 1) then escFFFD
          else take width (c # cs))
         @ EscapeString_from (width - 1) cs)"

definition EscapeString :: "string \<Rightarrow> string" where
  "EscapeString s = EscapeString_from 0 s"

text \<open>
  The strings the encoder writes unchanged: every rune is the encoding of a character
  XML allows. Strings of tab, newline, carriage return and the ASCII characters from
  the space on (\<open>xml_ascii\<close>) are among them.
\<close>

fun xml_characters_from :: "nat \<Rightarrow> string \<Rightarrow> bool" where
  "xml_characters_from pending [] = True"
| "xml_characters_from (Suc pending) (c # cs) = xml_characters_from pending cs"
| "xml_characters_from 0 (c # cs) =
     (let (r, width) = DecodeRune (c # cs)
      in isInCharacterRange r \<and> \<not> (r = RuneError \<and> width = 1)
         \<and> xml_characters_from (width - 1) cs)"

definition xml_characters :: "string \<Rightarrow> bool" where
  "xml_characters s = xml_characters_from 0 s"

definition xml_ascii :: "char \<Rightarrow> bool" where
  "xml_ascii c =
     (let b = (of_char c :: int)
      in b = 0x09 \<or> b = 0x0A \<or> b = 0x0D \<or> (0x20 \<le> b \<and> b < 0x80))"

subsection \<open>The encoder\<close>

text \<open>
  The encoder, at the level of tokens: the tokens written so far and the stack of
  open tags. \<open>EncodeToken\<close> refuses a start or end tag with no name and an end tag
  that does not close the innermost open tag, as \<^verbatim>\<open>xml.Encoder.EncodeToken\<close> does.

  \<open>out\<close> holds the tokens as they are written (\<^verbatim>\<open>printer.writeStart\<close>,
  \<^verbatim>\<open>printer.writeEnd\<close>). A tag is written under the \<open>Local\<close> part of its name. For a
  start element whose name has a \<open>Space\<close>, the attribute \<^verbatim>\<open>xmlns\<close> with that
  namespace is written first, before the attributes of the element. An attribute whose
  name has no \<open>Local\<close> part is not written. Every value goes through \<open>EscapeString\<close>.
  For an attribute whose name has a \<open>Space\<close> the encoder invents a prefix and declares
  it; no code of this repository writes such an attribute, and the model keeps its
  name as given.
\<close>

record xml_Encoder =
  out :: "xml_Token list"
  tags :: "xml_Name list"

definition NewEncoder :: xml_Encoder where
  "NewEncoder = \<lparr>out = [], tags = []\<rparr>"

definition written_attr :: "xml_Attr \<Rightarrow> xml_Attr" where
  "written_attr a = a\<lparr>Value := EscapeString (Value a)\<rparr>"

definition written_start :: "xml_StartElement \<Rightarrow> xml_StartElement" where
  "written_start s =
     \<lparr>xml_StartElement.Name = \<lparr>Space = '''', Local = Local (xml_StartElement.Name s)\<rparr>,
      Attr =
        (if Space (xml_StartElement.Name s) \<noteq> ''''
         then [\<lparr>xml_Attr.Name = \<lparr>Space = '''', Local = ''xmlns''\<rparr>,
                 Value = EscapeString (Space (xml_StartElement.Name s))\<rparr>]
         else [])
        @ map written_attr [a \<leftarrow> Attr s. Local (xml_Attr.Name a) \<noteq> '''']\<rparr>"

definition EncodeToken :: "xml_Encoder \<Rightarrow> xml_Token \<Rightarrow> error + xml_Encoder" where
  "EncodeToken e t =
     (case t of
        StartElement s \<Rightarrow>
          if Local (xml_StartElement.Name s) = ''''
          then Inl (EncodeError ''xml: start tag with no name'')
          else Inr (e\<lparr>out := out e @ [StartElement (written_start s)],
                      tags := xml_StartElement.Name s # tags e\<rparr>)
      | EndElement n \<Rightarrow>
          if Local n = '''' then Inl (EncodeError ''xml: end tag with no name'')
          else (case tags e of
                  [] \<Rightarrow> Inl (EncodeError ''xml: end tag without start tag'')
                | open # rest \<Rightarrow>
                    if open \<noteq> n then Inl (EncodeError ''xml: end tag does not match start tag'')
                    else Inr (e\<lparr>out := out e @ [EndElement \<lparr>Space = '''', Local = Local n\<rparr>],
                                tags := rest\<rparr>))
      | CharData c \<Rightarrow> Inr (e\<lparr>out := out e @ [CharData (EscapeString c)]\<rparr>))"

subsection \<open>The decoder\<close>

text \<open>
  The decoder is the list of tokens still to be read. \<open>Skip\<close> is
  \<^verbatim>\<open>xml.Decoder.Skip\<close>: it reads tokens until the end tag that closes the element whose
  start tag was consumed last, counting nested elements; running out of input is an
  error. The syntax checks of the reader itself are not modelled: statements about
  \<open>Skip\<close> are made for well-formed input.
\<close>

type_synonym xml_Decoder = "xml_Token list"

fun Skip_from :: "nat \<Rightarrow> xml_Decoder \<Rightarrow> error + xml_Decoder" where
  "Skip_from depth [] = Inl (DecodeError ''unexpected EOF'')"
| "Skip_from depth (StartElement s # ts) = Skip_from (Suc depth) ts"
| "Skip_from depth (EndElement n # ts) =
     (if depth = 0 then Inr ts else Skip_from (depth - 1) ts)"
| "Skip_from depth (CharData c # ts) = Skip_from depth ts"

definition Skip :: "xml_Decoder \<Rightarrow> error + xml_Decoder" where
  "Skip d = Skip_from 0 d"

text \<open>
  Well-formed element content: character data and complete elements whose end tag
  bears the name of the start tag, nested properly.
\<close>

inductive well_formed :: "xml_Token list \<Rightarrow> bool" where
  wf_Nil: "well_formed []"
| wf_CharData: "well_formed ts \<Longrightarrow> well_formed (CharData c # ts)"
| wf_Element:
    "well_formed body \<Longrightarrow> well_formed ts \<Longrightarrow>
     well_formed (StartElement s # body @ EndElement (xml_StartElement.Name s) # ts)"



text \<open>
  What the reader hands back for a name the encoder wrote with an empty \<open>Space\<close>
  (\<^verbatim>\<open>Decoder.nsname\<close>): a name \<^verbatim>\<open>prefix:local\<close> with exactly one colon and both parts
  non-empty is split at the colon, any other name is kept whole in \<open>Local\<close>.
  Namespace resolution afterwards rewrites \<open>Space\<close> only, so it is left out.
  A value the encoder wrote consists of characters XML allows (\<open>EscapeString\<close> has
  replaced the others), which the reader hands back as they were written.
\<close>

definition nsname :: "string \<Rightarrow> xml_Name" where
  "nsname s =
     (let space = takeWhile (\<lambda>c. c \<noteq> CHR '':'') s;
          rest = dropWhile (\<lambda>c. c \<noteq> CHR '':'') s
      in if rest = [] \<or> space = [] \<or> tl rest = [] \<or> CHR '':'' \<in> set (tl rest)
         then \<lparr>Space = '''', Local = s\<rparr>
         else \<lparr>Space = space, Local = tl rest\<rparr>)"

definition read_attr :: "xml_Attr \<Rightarrow> xml_Attr" where
  "read_attr a = \<lparr>xml_Attr.Name = nsname (Local (xml_Attr.Name a)), Value = Value a\<rparr>"

fun read_token :: "xml_Token \<Rightarrow> xml_Token" where
  "read_token (StartElement s) =
     StartElement \<lparr>xml_StartElement.Name = nsname (Local (xml_StartElement.Name s)),
                   Attr = map read_attr (Attr s)\<rparr>"
| "read_token (EndElement n) = EndElement (nsname (Local n))"
| "read_token (CharData c) = CharData c"

section \<open>\<^verbatim>\<open>schema/soo/dml/svgblip.go\<close>\<close>

definition SVGBlipURI :: string where
  "SVGBlipURI = ''{96DAC541-7B7A-43D3-8B79-37D633B846F1}''"

definition SVGBlipNS :: string where
  "SVGBlipNS = ''http://schemas.microsoft.com/office/drawing/2016/SVG/main''"

record SVGBlip =
  EmbedAttr :: string

text \<open>\<^verbatim>\<open>xml.Name{Local: s}\<close> and \<^verbatim>\<open>xml.Attr{Name: xml.Name{Local: n}, Value: v}\<close>.\<close>

definition local_name :: "string \<Rightarrow> xml_Name" where
  "local_name s = \<lparr>Space = '''', Local = s\<rparr>"

definition attr :: "string \<Rightarrow> string \<Rightarrow> xml_Attr" where
  "attr n v = \<lparr>xml_Attr.Name = local_name n, Value = v\<rparr>"

definition SVGBlip_MarshalXML ::
  "SVGBlip \<Rightarrow> xml_Encoder \<Rightarrow> xml_StartElement \<Rightarrow> error + xml_Encoder" where
  "SVGBlip_MarshalXML s e start =
     (let el = \<lparr>xml_StartElement.Name = local_name ''asvg:svgBlip'',
                Attr = [attr ''xmlns:asvg'' SVGBlipNS,
                        attr ''r:embed'' (SVGBlip.EmbedAttr s)]\<rparr>
      in case EncodeToken e (StartElement el) of
           Inl err \<Rightarrow> Inl err
         | Inr e1 \<Rightarrow> EncodeToken e1 (EndElement (xml_StartElement.Name el)))"

text \<open>The loop of \<^verbatim>\<open>UnmarshalXML\<close> over \<^verbatim>\<open>start.Attr\<close>, in order.\<close>

fun UnmarshalXML_attrs :: "xml_Attr list \<Rightarrow> SVGBlip \<Rightarrow> SVGBlip" where
  "UnmarshalXML_attrs [] s = s"
| "UnmarshalXML_attrs (a # rest) s =
     UnmarshalXML_attrs rest
       (if Local (xml_Attr.Name a) = ''embed'' then s\<lparr>SVGBlip.EmbedAttr := Value a\<rparr> else s)"

text \<open>
  The receiver is updated in place and the decoder advanced: the model returns the
  receiver after the call, and the error or the decoder after \<^verbatim>\<open>d.Skip()\<close>.
\<close>

definition SVGBlip_UnmarshalXML ::
  "SVGBlip \<Rightarrow> xml_Decoder \<Rightarrow> xml_StartElement \<Rightarrow> SVGBlip \<times> (error + xml_Decoder)" where
  "SVGBlip_UnmarshalXML s d start = (UnmarshalXML_attrs (Attr start) s, Skip d)"

text \<open>
  \<^verbatim>\<open>xml.Marshal\<close> and \<^verbatim>\<open>xml.Unmarshal\<close> on an \<open>SVGBlip\<close>, as the tests use them: the first
  runs \<open>MarshalXML\<close> on a new encoder (the start element it proposes is named after
  the type) and returns what was written; the second reads up to the first start
  tag and runs \<open>UnmarshalXML\<close> on it.
\<close>

definition xml_Marshal_SVGBlip :: "SVGBlip \<Rightarrow> error + xml_Token list" where
  "xml_Marshal_SVGBlip s =
     (case SVGBlip_MarshalXML s NewEncoder
             \<lparr>xml_StartElement.Name = local_name ''SVGBlip'', Attr = []\<rparr> of
        Inl err \<Rightarrow> Inl err
      | Inr e \<Rightarrow> Inr (out e))"

fun xml_Unmarshal_SVGBlip :: "xml_Token list \<Rightarrow> SVGBlip \<Rightarrow> SVGBlip \<times> (error + xml_Decoder)" where
  "xml_Unmarshal_SVGBlip [] s = (s, Inl (DecodeError ''EOF''))"
| "xml_Unmarshal_SVGBlip (StartElement st # ts) s = SVGBlip_UnmarshalXML s ts st"
| "xml_Unmarshal_SVGBlip (EndElement n # ts) s = xml_Unmarshal_SVGBlip ts s"
| "xml_Unmarshal_SVGBlip (CharData c # ts) s = xml_Unmarshal_SVGBlip ts s"

text \<open>
  The round trip of a token through the extension payload: a new \<open>SVGBlip\<close> with the
  token is marshalled, and what was written is read back and unmarshalled into a new
  \<open>SVGBlip\<close>.
\<close>

definition SVGBlip_roundtrip :: "string \<Rightarrow> SVGBlip \<times> (error + xml_Decoder)" where
  "SVGBlip_roundtrip t =
     (case xml_Marshal_SVGBlip \<lparr>SVGBlip.EmbedAttr = t\<rparr> of
        Inl err \<Rightarrow> (\<lparr>SVGBlip.EmbedAttr = ''''\<rparr>, Inl err)
      | Inr toks \<Rightarrow> xml_Unmarshal_SVGBlip (map read_token toks) \<lparr>SVGBlip.EmbedAttr = ''''\<rparr>)"

section \<open>The drawing schema types used by \<^verbatim>\<open>document/svg.go\<close>\<close>

text \<open>
  Modelled from the spec: the schema types of the packages \<^verbatim>\<open>dml\<close>, \<^verbatim>\<open>picture\<close> and
  \<^verbatim>\<open>wml\<close> and their constructors (\<^verbatim>\<open>dml.NewCT_Blip\<close>, \<^verbatim>\<open>picture.NewPic\<close>,
  \<^verbatim>\<open>wml.NewWdInline\<close> and the others) are declared outside \<^verbatim>\<open>src/\<close>. Each record has
  the members that \<^verbatim>\<open>AddDrawingInlineSVG\<close> reads or writes, under the names of the
  source. A pointer member that the source assigns is an \<open>option\<close> (\<open>None\<close> is nil), a
  slice is a list. A member that the source dereferences right after the
  constructor (\<^verbatim>\<open>Extent\<close>, \<^verbatim>\<open>DocPr\<close>, \<^verbatim>\<open>NvPicPr.CNvPr\<close>, \<^verbatim>\<open>GeometryChoice\<close>,
  \<^verbatim>\<open>FillModePropertiesChoice\<close>) is allocated by the constructor and is part of the
  record. A constructor returns the zero value otherwise: no optional child, empty
  slices, empty strings, zero numbers; in particular a new blip has no extension
  list, as the specification says of the fallback branch.

  \<^verbatim>\<open>int64\<close> values are integers kept in the 64-bit range by \<open>wrap64\<close>; \<^verbatim>\<open>uint32\<close>
  values are 32-bit words.
\<close>

definition wrap64 :: "int \<Rightarrow> int" where
  "wrap64 v = (v + 2 ^ 63) mod 2 ^ 64 - 2 ^ 63"

record CT_PositiveSize2D =
  CxAttr :: int
  CyAttr :: int

record CT_Point2D =
  XAttr :: "int option"
  YAttr :: "int option"

record CT_Transform2D =
  Off :: "CT_Point2D option"
  Ext :: "CT_PositiveSize2D option"

datatype ST_ShapeType = ST_ShapeTypeUnset | ST_ShapeTypeLine | ST_ShapeTypeRect | ST_ShapeTypeEllipse

record CT_PresetGeometry2D =
  PrstAttr :: ST_ShapeType

record CT_ShapeProperties =
  Xfrm :: "CT_Transform2D option"
  PrstGeom :: "CT_PresetGeometry2D option"

record CT_OfficeArtExtension =
  UriAttr :: string
  Any :: "SVGBlip list"

record CT_OfficeArtExtensionList =
  Ext :: "CT_OfficeArtExtension list"

record CT_Blip =
  EmbedAttr :: "string option"
  ExtLst :: "CT_OfficeArtExtensionList option"

datatype CT_RelativeRect = CT_RelativeRect

record CT_StretchInfoProperties =
  FillRect :: "CT_RelativeRect option"

record CT_BlipFillProperties =
  Blip :: "CT_Blip option"
  Stretch :: "CT_StretchInfoProperties option"

record Pic =
  CNvPr_IdAttr :: "32 word"
  BlipFill :: "CT_BlipFillProperties option"
  SpPr :: "CT_ShapeProperties option"

record CT_GraphicalObjectData =
  UriAttr :: string
  Any :: "Pic list"

record Graphic =
  GraphicData :: "CT_GraphicalObjectData option"

datatype CT_NonVisualGraphicFrameProperties = CT_NonVisualGraphicFrameProperties

record WdInline =
  DistTAttr :: "32 word option"
  DistBAttr :: "32 word option"
  DistLAttr :: "32 word option"
  DistRAttr :: "32 word option"
  Extent :: CT_PositiveSize2D
  DocPr_IdAttr :: "32 word"
  CNvGraphicFramePr :: "CT_NonVisualGraphicFrameProperties option"
  Graphic :: "Graphic option"

record CT_DrawingChoice =
  Inline :: "WdInline option"

record CT_Drawing =
  DrawingChoice :: "CT_DrawingChoice list"

text \<open>\<open>Requires\<close> is the private member \<^verbatim>\<open>_egdddc\<close> that \<^verbatim>\<open>SetRequires\<close> assigns.\<close>

record AC_ChoiceRun =
  Requires :: string
  Drawing :: "CT_Drawing option"

definition NewCT_PositiveSize2D :: CT_PositiveSize2D where
  "NewCT_PositiveSize2D = \<lparr>CxAttr = 0, CyAttr = 0\<rparr>"

definition NewCT_Point2D :: CT_Point2D where
  "NewCT_Point2D = \<lparr>XAttr = None, YAttr = None\<rparr>"

definition NewCT_Transform2D :: CT_Transform2D where
  "NewCT_Transform2D = \<lparr>Off = None, Ext = None\<rparr>"

definition NewCT_PresetGeometry2D :: CT_PresetGeometry2D where
  "NewCT_PresetGeometry2D = \<lparr>PrstAttr = ST_ShapeTypeUnset\<rparr>"

definition NewCT_ShapeProperties :: CT_ShapeProperties where
  "NewCT_ShapeProperties = \<lparr>Xfrm = None, PrstGeom = None\<rparr>"

definition NewCT_OfficeArtExtension :: CT_OfficeArtExtension where
  "NewCT_OfficeArtExtension = \<lparr>CT_OfficeArtExtension.UriAttr = '''', Any = []\<rparr>"

definition NewCT_OfficeArtExtensionList :: CT_OfficeArtExtensionList where
  "NewCT_OfficeArtExtensionList = \<lparr>CT_OfficeArtExtensionList.Ext = []\<rparr>"

definition NewCT_Blip :: CT_Blip where
  "NewCT_Blip = \<lparr>CT_Blip.EmbedAttr = None, ExtLst = None\<rparr>"

definition NewCT_RelativeRect :: CT_RelativeRect where
  "NewCT_RelativeRect = CT_RelativeRect"

definition NewCT_StretchInfoProperties :: CT_StretchInfoProperties where
  "NewCT_StretchInfoProperties = \<lparr>FillRect = None\<rparr>"

definition NewCT_BlipFillProperties :: CT_BlipFillProperties where
  "NewCT_BlipFillProperties = \<lparr>Blip = None, Stretch = None\<rparr>"

definition NewPic :: Pic where
  "NewPic = \<lparr>CNvPr_IdAttr = 0, BlipFill = Some NewCT_BlipFillProperties,
             SpPr = Some NewCT_ShapeProperties\<rparr>"

definition NewCT_GraphicalObjectData :: CT_GraphicalObjectData where
  "NewCT_GraphicalObjectData = \<lparr>CT_GraphicalObjectData.UriAttr = '''', Any = []\<rparr>"

definition NewGraphic :: Graphic where
  "NewGraphic = \<lparr>GraphicData = Some NewCT_GraphicalObjectData\<rparr>"

definition NewCT_NonVisualGraphicFrameProperties :: CT_NonVisualGraphicFrameProperties where
  "NewCT_NonVisualGraphicFrameProperties = CT_NonVisualGraphicFrameProperties"

definition NewWdInline :: WdInline where
  "NewWdInline = \<lparr>DistTAttr = None, DistBAttr = None, DistLAttr = None, DistRAttr = None,
                  Extent = NewCT_PositiveSize2D, DocPr_IdAttr = 0,
                  CNvGraphicFramePr = None, Graphic = Some NewGraphic\<rparr>"

definition NewCT_Drawing :: CT_Drawing where
  "NewCT_Drawing = \<lparr>DrawingChoice = []\<rparr>"

definition NewAC_ChoiceRun :: AC_ChoiceRun where
  "NewAC_ChoiceRun = \<lparr>Requires = '''', Drawing = None\<rparr>"

section \<open>\<^verbatim>\<open>schema/soo/wml/svg_helpers.go\<close>\<close>

definition SetRequires :: "AC_ChoiceRun \<Rightarrow> string \<Rightarrow> AC_ChoiceRun" where
  "SetRequires a requires = a\<lparr>Requires := requires\<rparr>"

record FallbackDrawing =
  Drawing :: "CT_Drawing option"

record AlternateContentSVGRun =
  Choice :: "AC_ChoiceRun option"
  Fallback :: "FallbackDrawing option"








section \<open>\<^verbatim>\<open>document/svg.go\<close>: images and their references\<close>

text \<open>
  \<^verbatim>\<open>common.Image\<close> with the members the source sets: \<^verbatim>\<open>Size\<close> (an \<^verbatim>\<open>image.Point\<close>),
  \<^verbatim>\<open>Format\<close>, \<^verbatim>\<open>Data\<close> (a pointer to the bytes) and \<^verbatim>\<open>Path\<close>, which the source reads and
  never sets.
\<close>

record Image =
  Size_X :: int
  Size_Y :: int
  Format :: string
  Data :: "8 word list option"
  Path :: string

text \<open>
  Modelled from the spec: \<^verbatim>\<open>common.ImageRef\<close> (the asset handle) with its constructor
  \<^verbatim>\<open>common.MakeImageRef\<close> and its methods \<^verbatim>\<open>SetRelID\<close>, \<^verbatim>\<open>SetTarget\<close> and \<^verbatim>\<open>RelID\<close>,
  declared outside \<^verbatim>\<open>src/\<close>. It is a struct value holding the image, the
  cross-reference token (relationship id, empty until \<^verbatim>\<open>SetRelID\<close>) and the target
  path; \<^verbatim>\<open>Size()\<close> and \<^verbatim>\<open>Format()\<close> read the image.
\<close>

record ImageRef =
  img :: Image
  relID :: string
  target :: string

definition MakeImageRef :: "Image \<Rightarrow> ImageRef" where
  "MakeImageRef i = \<lparr>img = i, relID = '''', target = ''''\<rparr>"

definition SetRelID :: "ImageRef \<Rightarrow> string \<Rightarrow> ImageRef" where
  "SetRelID r id' = r\<lparr>relID := id'\<rparr>"

definition SetTarget :: "ImageRef \<Rightarrow> string \<Rightarrow> ImageRef" where
  "SetTarget r t = r\<lparr>target := t\<rparr>"

definition RelID :: "ImageRef \<Rightarrow> string" where
  "RelID r = relID r"

section \<open>\<^verbatim>\<open>document/svg.go\<close>: \<^verbatim>\<open>AddDrawingInlineSVG\<close>\<close>

text \<open>
  The constants of the package \<^verbatim>\<open>measurement\<close> are outside \<^verbatim>\<open>src/\<close> and are parameters:
  \<open>Pixel72\<close> and \<open>Point\<close> multiply a Go \<^verbatim>\<open>int\<close>, so they are integer constants;
  \<open>div_EMU v\<close> stands for \<^verbatim>\<open>int64(float64(v) / measurement.EMU)\<close>, a floating-point
  division and truncation that is a fixed function of \<open>v\<close>.
\<close>

record measurement =
  Pixel72 :: int
  Point :: int
  div_EMU :: "int \<Rightarrow> int"

text \<open>
  \<^verbatim>\<open>math/rand\<close>'s global source: the sequence of values \<^verbatim>\<open>rand.Uint32()\<close> returns and
  the number drawn so far.
\<close>

record rand_source =
  draws :: "nat \<Rightarrow> 32 word"
  drawn :: nat

definition rand_Uint32 :: "rand_source \<Rightarrow> 32 word \<times> rand_source" where
  "rand_Uint32 g = (draws g (drawn g), g\<lparr>drawn := Suc (drawn g)\<rparr>)"

text \<open>
  The run's \<^verbatim>\<open>Extra\<close> slice holds elements of any kind; the fragment built here is
  one of them.
\<close>

datatype Any = AnyAlternateContentSVGRun AlternateContentSVGRun | AnyOther string

record CT_R =
  Extra :: "Any list"

text \<open>
  The objects of the source are linked by pointers (the drawing points to the
  inline, the inline's graphic data to the picture), so a later assignment to an
  object is seen through every pointer to it. The model binds each object under the
  name of the source, with the members it has when the function returns on that
  path, and links them when the last one is complete; \<open>choiceXfrmExt\<close> is the object
  \<^verbatim>\<open>choicePic.SpPr.Xfrm.Ext\<close>, which the fallback branch reads. The result is the
  \<^verbatim>\<open>InlineDrawing\<close> (its \<open>WdInline\<close>) with the error, the run and the random source
  after the call.
\<close>

definition AddDrawingInlineSVG ::
  "measurement \<Rightarrow> rand_source \<Rightarrow> CT_R \<Rightarrow> ImageRef \<Rightarrow> ImageRef
     \<Rightarrow> (WdInline \<times> error option) \<times> CT_R \<times> rand_source" where
  "AddDrawingInlineSVG m g r svgImg pngImg =
     (let choiceGraphicData = NewCT_GraphicalObjectData
            \<lparr>CT_GraphicalObjectData.UriAttr :=
               ''http://schemas.openxmlformats.org/drawingml/2006/picture''\<rparr>;
          (rnd1, g1) = rand_Uint32 g;
          docPrID = 0x7FFFFFFF AND rnd1;
          choiceInline = NewWdInline
            \<lparr>CNvGraphicFramePr := Some NewCT_NonVisualGraphicFrameProperties,
             Graphic := Some (NewGraphic\<lparr>GraphicData := Some choiceGraphicData\<rparr>),
             DistTAttr := Some 0, DistLAttr := Some 0, DistBAttr := Some 0, DistRAttr := Some 0,
             Extent := NewCT_PositiveSize2D
               \<lparr>CxAttr := div_EMU m (wrap64 (Size_X (img pngImg) * Pixel72 m)),
                CyAttr := div_EMU m (wrap64 (Size_Y (img pngImg) * Pixel72 m))\<rparr>,
             DocPr_IdAttr := docPrID\<rparr>;
          choicePic = NewPic\<lparr>CNvPr_IdAttr := docPrID\<rparr>;
          pngRelID = RelID pngImg
      in if pngRelID = '''' then
           ((choiceInline,
             Some (ReferenceError ''couldn't find reference to PNG image within document relations'')),
            r, g1)
         else
           let svgRelID = RelID svgImg
           in if svgRelID = '''' then
                ((choiceInline,
                  Some (ReferenceError ''couldn't find reference to SVG image within document relations'')),
                 r, g1)
              else
                let svgExt = NewCT_OfficeArtExtension
                      \<lparr>CT_OfficeArtExtension.UriAttr := SVGBlipURI,
                       CT_OfficeArtExtension.Any :=
                         CT_OfficeArtExtension.Any NewCT_OfficeArtExtension
                           @ [\<lparr>SVGBlip.EmbedAttr = svgRelID\<rparr>]\<rparr>;
                    choiceXfrmExt = NewCT_PositiveSize2D
                      \<lparr>CxAttr := wrap64 (Size_X (img pngImg) * Point m),
                       CyAttr := wrap64 (Size_Y (img pngImg) * Point m)\<rparr>;
                    choicePic = choicePic
                      \<lparr>BlipFill := Some (NewCT_BlipFillProperties
                         \<lparr>Blip := Some (NewCT_Blip
                            \<lparr>CT_Blip.EmbedAttr := Some pngRelID,
                             ExtLst := Some (NewCT_OfficeArtExtensionList
                               \<lparr>CT_OfficeArtExtensionList.Ext :=
                                  CT_OfficeArtExtensionList.Ext NewCT_OfficeArtExtensionList
                                    @ [svgExt]\<rparr>)\<rparr>),
                          Stretch := Some (NewCT_StretchInfoProperties
                            \<lparr>FillRect := Some NewCT_RelativeRect\<rparr>)\<rparr>),
                       SpPr := Some (NewCT_ShapeProperties
                         \<lparr>Xfrm := Some (NewCT_Transform2D
                            \<lparr>Off := Some (NewCT_Point2D\<lparr>XAttr := Some 0, YAttr := Some 0\<rparr>),
                             CT_Transform2D.Ext := Some choiceXfrmExt\<rparr>),
                          PrstGeom := Some (NewCT_PresetGeometry2D
                            \<lparr>PrstAttr := ST_ShapeTypeRect\<rparr>)\<rparr>)\<rparr>;
                    choiceInline = choiceInline
                      \<lparr>Graphic := Some (NewGraphic\<lparr>GraphicData := Some (choiceGraphicData
                         \<lparr>CT_GraphicalObjectData.Any :=
                            CT_GraphicalObjectData.Any choiceGraphicData @ [choicePic]\<rparr>)\<rparr>)\<rparr>;
                    choiceDrawing = NewCT_Drawing
                      \<lparr>DrawingChoice := DrawingChoice NewCT_Drawing
                         @ [\<lparr>Inline = Some choiceInline\<rparr>]\<rparr>;
                    (rnd2, g2) = rand_Uint32 g1;
                    fallbackDocPrID = 0x7FFFFFFF AND rnd2;
                    fallbackGraphicData = NewCT_GraphicalObjectData
                      \<lparr>CT_GraphicalObjectData.UriAttr :=
                         ''http://schemas.openxmlformats.org/drawingml/2006/picture''\<rparr>;
                    fallbackPic = NewPic
                      \<lparr>CNvPr_IdAttr := fallbackDocPrID,
                       BlipFill := Some (NewCT_BlipFillProperties
                         \<lparr>Blip := Some (NewCT_Blip\<lparr>CT_Blip.EmbedAttr := Some pngRelID\<rparr>),
                          Stretch := Some (NewCT_StretchInfoProperties
                            \<lparr>FillRect := Some NewCT_RelativeRect\<rparr>)\<rparr>),
                       SpPr := Some (NewCT_ShapeProperties
                         \<lparr>Xfrm := Some (NewCT_Transform2D
                            \<lparr>Off := Some (NewCT_Point2D\<lparr>XAttr := Some 0, YAttr := Some 0\<rparr>),
                             CT_Transform2D.Ext := Some (NewCT_PositiveSize2D
                               \<lparr>CxAttr := CxAttr choiceXfrmExt,
                                CyAttr := CyAttr choiceXfrmExt\<rparr>)\<rparr>),
                          PrstGeom := Some (NewCT_PresetGeometry2D
                            \<lparr>PrstAttr := ST_ShapeTypeRect\<rparr>)\<rparr>)\<rparr>;
                    fallbackInline = NewWdInline
                      \<lparr>CNvGraphicFramePr := Some NewCT_NonVisualGraphicFrameProperties,
                       Graphic := Some (NewGraphic\<lparr>GraphicData := Some (fallbackGraphicData
                         \<lparr>CT_GraphicalObjectData.Any :=
                            CT_GraphicalObjectData.Any fallbackGraphicData @ [fallbackPic]\<rparr>)\<rparr>),
                       DistTAttr := Some 0, DistLAttr := Some 0, DistBAttr := Some 0,
                       DistRAttr := Some 0,
                       Extent := NewCT_PositiveSize2D
                         \<lparr>CxAttr := CxAttr (Extent choiceInline),
                          CyAttr := CyAttr (Extent choiceInline)\<rparr>,
                       DocPr_IdAttr := fallbackDocPrID\<rparr>;
                    fallbackDrawing = NewCT_Drawing
                      \<lparr>DrawingChoice := DrawingChoice NewCT_Drawing
                         @ [\<lparr>Inline = Some fallbackInline\<rparr>]\<rparr>;
                    choice = (SetRequires NewAC_ChoiceRun ''asvg'')
                      \<lparr>AC_ChoiceRun.Drawing := Some choiceDrawing\<rparr>;
                    acRun = \<lparr>Choice = Some choice,
                             Fallback = Some \<lparr>FallbackDrawing.Drawing = Some fallbackDrawing\<rparr>\<rparr>
                in ((choiceInline, None),
                    r\<lparr>Extra := Extra r @ [AnyAlternateContentSVGRun acRun]\<rparr>, g2))"

text \<open>
  Paths into a fragment: the inline of a branch's drawing (the drawing has one
  choice, an inline), the picture in its graphic data, and the picture's blip.
  \<open>None\<close> where the path does not exist.
\<close>

definition drawing_inline :: "CT_Drawing option \<Rightarrow> WdInline option" where
  "drawing_inline d =
     (case d of
        None \<Rightarrow> None
      | Some dr \<Rightarrow> (case DrawingChoice dr of [c] \<Rightarrow> Inline c | _ \<Rightarrow> None))"

definition choice_inline :: "AlternateContentSVGRun \<Rightarrow> WdInline option" where
  "choice_inline a =
     (case Choice a of None \<Rightarrow> None | Some c \<Rightarrow> drawing_inline (AC_ChoiceRun.Drawing c))"

definition fallback_inline :: "AlternateContentSVGRun \<Rightarrow> WdInline option" where
  "fallback_inline a =
     (case Fallback a of None \<Rightarrow> None | Some f \<Rightarrow> drawing_inline (FallbackDrawing.Drawing f))"

definition inline_pic :: "WdInline \<Rightarrow> Pic option" where
  "inline_pic i =
     (case Graphic i of
        None \<Rightarrow> None
      | Some gr \<Rightarrow>
          (case GraphicData gr of
             None \<Rightarrow> None
           | Some gd \<Rightarrow> (case CT_GraphicalObjectData.Any gd of [p] \<Rightarrow> Some p | _ \<Rightarrow> None)))"

definition pic_blip :: "Pic \<Rightarrow> CT_Blip option" where
  "pic_blip p = (case BlipFill p of None \<Rightarrow> None | Some bf \<Rightarrow> Blip bf)"

definition pic_ext :: "Pic \<Rightarrow> CT_PositiveSize2D option" where
  "pic_ext p =
     (case SpPr p of
        None \<Rightarrow> None
      | Some sp \<Rightarrow> (case Xfrm sp of None \<Rightarrow> None | Some x \<Rightarrow> CT_Transform2D.Ext x))"

definition choice_pic :: "AlternateContentSVGRun \<Rightarrow> Pic option" where
  "choice_pic a = Option.bind (choice_inline a) inline_pic"

definition fallback_pic :: "AlternateContentSVGRun \<Rightarrow> Pic option" where
  "fallback_pic a = Option.bind (fallback_inline a) inline_pic"

text \<open>The object ids of a fragment: that of its preferred and that of its fallback inline.\<close>

definition fragment_ids :: "AlternateContentSVGRun \<Rightarrow> 32 word option \<times> 32 word option" where
  "fragment_ids a =
     (map_option DocPr_IdAttr (choice_inline a), map_option DocPr_IdAttr (fallback_inline a))"

text \<open>The fragments among the run's extra content, in order.\<close>

fun fragments :: "Any list \<Rightarrow> AlternateContentSVGRun list" where
  "fragments [] = []"
| "fragments (AnyAlternateContentSVGRun a # xs) = a # fragments xs"
| "fragments (AnyOther s # xs) = fragments xs"

text \<open>
  Scenario values (the 200 by 100 image of the specification's scenarios A and B):
  two registered references, measurement constants, a random source whose first two
  values differ in the top bit only, and an empty run.
\<close>

definition scenario_png :: ImageRef where
  "scenario_png =
     \<lparr>img = \<lparr>Size_X = 200, Size_Y = 100, Format = ''png'', Data = Some [137, 80, 78, 71],
              Path = ''''\<rparr>,
      relID = ''rId1'', target = ''media/image1.png''\<rparr>"

definition scenario_svg :: ImageRef where
  "scenario_svg =
     \<lparr>img = \<lparr>Size_X = 200, Size_Y = 100, Format = ''svg'', Data = Some [60, 115, 118, 103],
              Path = ''''\<rparr>,
      relID = ''rId2'', target = ''media/image2.svg''\<rparr>"

definition scenario_measurement :: measurement where
  "scenario_measurement = \<lparr>Pixel72 = 1, Point = 1, div_EMU = (\<lambda>v. v * 12700)\<rparr>"

definition scenario_rand :: rand_source where
  "scenario_rand = \<lparr>draws = (\<lambda>n. if n = 0 then 0x00000001 else 0x80000001), drawn = 0\<rparr>"

definition scenario_run :: CT_R where
  "scenario_run = \<lparr>Extra = []\<rparr>"




section \<open>\<^verbatim>\<open>document/svg.go\<close>: \<^verbatim>\<open>AddImageSVG\<close>\<close>

text \<open>
  The document state the function touches: the asset list \<^verbatim>\<open>d.Images\<close>, the
  relationship set \<^verbatim>\<open>d._ead\<close> (here \<open>docRels\<close>) and the defaults of the content-type
  table \<^verbatim>\<open>d.ContentTypes\<close>, each in insertion order.
\<close>

record Relationship =
  IdAttr :: string
  TargetAttr :: string
  TypeAttr :: string

record Document =
  Images :: "ImageRef list"
  docRels :: "Relationship list"
  ContentTypes :: "(string \<times> string) list"

text \<open>
  What the collaborators outside \<^verbatim>\<open>src/\<close> decide, taken as parameters: the id the
  relationship set gives to a new relationship, from the ids it holds; the media
  type the asset store declares for a format tag; and the staging of a file path in
  \<^verbatim>\<open>tempstorage\<close>, which may fail.
\<close>

record collaborators =
  next_rel_id :: "string list \<Rightarrow> string"
  media_type :: "string \<Rightarrow> string"
  tempstorage_Add :: "string \<Rightarrow> error option"

text \<open>
  The contract the specification states for token allocation: a token is not empty
  and is never one the relationship set already holds.
\<close>

definition fresh_ids :: "collaborators \<Rightarrow> bool" where
  "fresh_ids env = (\<forall>ids. next_rel_id env ids \<noteq> '''' \<and> next_rel_id env ids \<notin> set ids)"

text \<open>The relationship type \<^verbatim>\<open>unioffice.ImageType\<close>, a constant declared outside \<^verbatim>\<open>src/\<close>.\<close>

definition ImageType :: string where
  "ImageType = ''http://schemas.openxmlformats.org/officeDocument/2006/relationships/image''"

text \<open>
  Modelled from the spec: \<^verbatim>\<open>Relationships.AddRelationship\<close>, outside \<^verbatim>\<open>src/\<close>. It links a
  target into the relationship set under a newly allocated token and returns the
  relationship.
\<close>

definition AddRelationship ::
  "collaborators \<Rightarrow> Relationship list \<Rightarrow> string \<Rightarrow> string \<Rightarrow> Relationship \<times> Relationship list" where
  "AddRelationship env rels tgt ctype =
     (let rel = \<lparr>IdAttr = next_rel_id env (map IdAttr rels), TargetAttr = tgt, TypeAttr = ctype\<rparr>
      in (rel, rels @ [rel]))"

text \<open>
  Modelled from the spec: \<^verbatim>\<open>ContentTypes.EnsureDefault\<close>, outside \<^verbatim>\<open>src/\<close>, the idempotent
  \<^verbatim>\<open>ensure(formatTag, mediaType)\<close> of the format-declaration table: a tag that has an
  entry keeps it, any other tag gets one entry.
\<close>

definition EnsureDefault :: "(string \<times> string) list \<Rightarrow> string \<Rightarrow> string \<Rightarrow> (string \<times> string) list" where
  "EnsureDefault cts ext ct = (if ext \<in> fst ` set cts then cts else cts @ [(ext, ct)])"

text \<open>\<^verbatim>\<open>%d\<close> of \<^verbatim>\<open>fmt.Sprintf\<close> on a length: the decimal digits.\<close>

definition digit_char :: "nat \<Rightarrow> char" where
  "digit_char k = char_of (48 + k)"

fun itoa :: "nat \<Rightarrow> string" where
  "itoa n = (if n < 10 then [digit_char n] else itoa (n div 10) @ [digit_char (n mod 10)])"

declare itoa.simps [simp del]

text \<open>\<^verbatim>\<open>fmt.Sprintf("media/image%d.%s", n, format)\<close>.\<close>

definition media_target :: "nat \<Rightarrow> string \<Rightarrow> string" where
  "media_target n format = ''media/image'' @ itoa n @ ''.'' @ format"

text \<open>
  Modelled from the spec: \<^verbatim>\<open>Document.AddImage\<close>, outside \<^verbatim>\<open>src/\<close>, the asset store's
  \<^verbatim>\<open>register(bytes, width, height, formatTag)\<close>. It fails with a validation error when
  the bytes are missing or empty or a dimension is not positive, and with the
  storage error when staging the image's path fails, in both cases before any change
  of the document. Otherwise it appends the handle to the asset list, names the target
  by the handle's index in that list and the format, links it into the relationship
  set, ensures the format's entry in the content-type table, and returns the handle
  with its token and target. The sequence after the checks is the one
  \<^verbatim>\<open>AddImageSVG\<close> performs itself for the SVG asset.
\<close>

definition AddImage :: "collaborators \<Rightarrow> Document \<Rightarrow> Image \<Rightarrow> (error + ImageRef) \<times> Document" where
  "AddImage env d i =
     (let r = MakeImageRef i
      in if (case Data i of None \<Rightarrow> True | Some bytes \<Rightarrow> bytes = [])
            \<or> Size_X i \<le> 0 \<or> Size_Y i \<le> 0
         then (Inl (ValidationError ''image must have data and a valid size''), d)
         else
           case (if Path i \<noteq> '''' then tempstorage_Add env (Path i) else None) of
             Some err \<Rightarrow> (Inl err, d)
           | None \<Rightarrow>
               (let images = Images d @ [r];
                    fn = media_target (length images) (Format i);
                    (rel, rels) = AddRelationship env (docRels d) fn ImageType;
                    cts = EnsureDefault (ContentTypes d) (Format i) (media_type env (Format i));
                    r = SetTarget (SetRelID r (IdAttr rel)) fn
                in (Inr r, d\<lparr>Images := images, docRels := rels, ContentTypes := cts\<rparr>)))"

text \<open>
  \<^verbatim>\<open>AddImageSVG\<close>, from the source. The document is changed in place, so the model
  returns it next to the result, also on the error returns. \<^verbatim>\<open>ImageRef\<close> is a struct
  value: the copy appended to \<^verbatim>\<open>d.Images\<close> is the one made before \<^verbatim>\<open>SetRelID\<close> and
  \<^verbatim>\<open>SetTarget\<close>, which complete the reference that is returned.
\<close>

definition AddImageSVG ::
  "collaborators \<Rightarrow> Document \<Rightarrow> 8 word list \<Rightarrow> 8 word list \<Rightarrow> int \<Rightarrow> int
     \<Rightarrow> (error + ImageRef \<times> ImageRef) \<times> Document" where
  "AddImageSVG env d svgData pngFallback width height =
     (if length svgData = 0 \<or> length pngFallback = 0
      then (Inl (ValidationError ''both SVG and PNG data are required''), d)
      else if width \<le> 0 \<or> height \<le> 0
      then (Inl (ValidationError ''width and height must be positive''), d)
      else
        let pngImage = \<lparr>Size_X = width, Size_Y = height, Format = ''png'',
                        Data = Some pngFallback, Path = ''''\<rparr>
        in case AddImage env d pngImage of
             (Inl err, d1) \<Rightarrow> (Inl (Wrapped ''adding PNG image: '' err), d1)
           | (Inr pngRef, d1) \<Rightarrow>
               (let svgImage = \<lparr>Size_X = width, Size_Y = height, Format = ''svg'',
                                Data = Some svgData, Path = ''''\<rparr>;
                    svgRef = MakeImageRef svgImage
                in case (if Path svgImage \<noteq> '''' then tempstorage_Add env (Path svgImage)
                         else None) of
                     Some err \<Rightarrow> (Inl err, d1)
                   | None \<Rightarrow>
                       (let images = Images d1 @ [svgRef];
                            tgt = media_target (length images) (Format svgImage);
                            (rel, rels) = AddRelationship env (docRels d1) tgt ImageType;
                            cts = EnsureDefault (ContentTypes d1) ''svg'' ''image/svg+xml'';
                            svgRef = SetTarget (SetRelID svgRef (IdAttr rel)) tgt
                        in (Inr (pngRef, svgRef),
                            d1\<lparr>Images := images, docRels := rels, ContentTypes := cts\<rparr>))))"

text \<open>
  The specification's classes of errors, seen through wrapping as \<^verbatim>\<open>errors.As\<close> sees
  them.
\<close>

fun is_ValidationError :: "error \<Rightarrow> bool" where
  "is_ValidationError (ValidationError msg) = True"
| "is_ValidationError (Wrapped msg e) = is_ValidationError e"
| "is_ValidationError e = False"

text \<open>
  A sequence of registrations on one document, each with its own bytes and size: it
  stops at the first error, and otherwise returns the references in the order they
  were made, the PNG reference of a call before its SVG reference.
\<close>

fun AddImageSVG_all ::
  "collaborators \<Rightarrow> Document \<Rightarrow> (8 word list \<times> 8 word list \<times> int \<times> int) list
     \<Rightarrow> (error + ImageRef list) \<times> Document" where
  "AddImageSVG_all env d [] = (Inr [], d)"
| "AddImageSVG_all env d ((svgData, pngFallback, width, height) # calls) =
     (case AddImageSVG env d svgData pngFallback width height of
        (Inl err, d1) \<Rightarrow> (Inl err, d1)
      | (Inr (pngRef, svgRef), d1) \<Rightarrow>
          (case AddImageSVG_all env d1 calls of
             (Inl err, d2) \<Rightarrow> (Inl err, d2)
           | (Inr refs, d2) \<Rightarrow> (Inr (pngRef # svgRef # refs), d2)))"

text \<open>
  Sequential naming, as the claim words it: after \<open>n\<close> assets, \<open>k\<close> registrations name
  their targets \<^verbatim>\<open>media/image(n+1).png\<close>, \<^verbatim>\<open>media/image(n+2).svg\<close>,
  \<^verbatim>\<open>media/image(n+3).png\<close> and so on.
\<close>

fun sequential_targets :: "nat \<Rightarrow> nat \<Rightarrow> string list" where
  "sequential_targets n 0 = []"
| "sequential_targets n (Suc k) =
     media_target (n + 1) ''png'' # media_target (n + 2) ''svg'' # sequential_targets (n + 2) k"

text \<open>
  Scenario values: a relationship set that hands out \<^verbatim>\<open>rId\<close> followed by the first
  number above the count of relationships that is not in use, a store that declares
  \<^verbatim>\<open>image/\<close> and the tag, a staging that succeeds, and an empty document.
\<close>

definition scenario_next_rel_id :: "string list \<Rightarrow> string" where
  "scenario_next_rel_id ids =
     (case find (\<lambda>s. s \<notin> set ids)
             (map (\<lambda>k. ''rId'' @ itoa k) [Suc (length ids) ..< Suc (Suc (2 * length ids))]) of
        Some s \<Rightarrow> s
      | None \<Rightarrow> ''rId'' @ concat ids)"

definition scenario_collaborators :: collaborators where
  "scenario_collaborators =
     \<lparr>next_rel_id = scenario_next_rel_id,
      media_type = (\<lambda>format. ''image/'' @ format),
      tempstorage_Add = (\<lambda>path. None)\<rparr>"

definition scenario_document :: Document where
  "scenario_document = \<lparr>Images = [], docRels = [], ContentTypes = []\<rparr>"

definition scenario_svg_bytes :: "8 word list" where
  "scenario_svg_bytes = [60, 115, 118, 103, 47, 62]"

definition scenario_png_bytes :: "8 word list" where
  "scenario_png_bytes = [137, 80, 78, 71]"

section \<open>Properties of the extension payload codec\<close>

lemma UnmarshalXML_attrs_none:
  "[a \<leftarrow> attrs. Local (xml_Attr.Name a) = ''embed''] = [] \<Longrightarrow> UnmarshalXML_attrs attrs s = s"
  by (induction attrs arbitrary: s) (simp_all split: if_splits)

lemma UnmarshalXML_attrs_last:
  "[a \<leftarrow> attrs. Local (xml_Attr.Name a) = ''embed''] \<noteq> [] \<Longrightarrow>
   UnmarshalXML_attrs attrs s =
     s\<lparr>SVGBlip.EmbedAttr := Value (last [a \<leftarrow> attrs. Local (xml_Attr.Name a) = ''embed''])\<rparr>"
proof (induction attrs arbitrary: s)
  case Nil
  then show ?case by simp
next
  case (Cons a attrs)
  show ?case
  proof (cases "[b \<leftarrow> attrs. Local (xml_Attr.Name b) = ''embed''] = []")
    case True
    with Cons.prems have "Local (xml_Attr.Name a) = ''embed''"
      by (simp split: if_splits)
    with True show ?thesis
      by (simp add: UnmarshalXML_attrs_none)
  next
    case False
    then show ?thesis
      using Cons.IH by simp
  qed
qed

lemma Skip_from_well_formed:
  "well_formed ts \<Longrightarrow> Skip_from k (ts @ rest) = Skip_from k rest"
proof (induction ts arbitrary: k rest rule: well_formed.induct)
  case wf_Nil
  show ?case by simp
next
  case (wf_CharData ts c)
  then show ?case by simp
next
  case (wf_Element body ts s)
  have "Skip_from k ((StartElement s # body @ EndElement (xml_StartElement.Name s) # ts) @ rest)
        = Skip_from (Suc k) (body @ (EndElement (xml_StartElement.Name s) # ts @ rest))"
    by simp
  also have "\<dots> = Skip_from (Suc k) (EndElement (xml_StartElement.Name s) # ts @ rest)"
    by (rule wf_Element.IH(1))
  also have "\<dots> = Skip_from k (ts @ rest)"
    by simp
  also have "\<dots> = Skip_from k rest"
    by (rule wf_Element.IH(2))
  finally show ?case .
qed

lemma Skip_well_formed:
  "well_formed content \<Longrightarrow> Skip (content @ EndElement n # rest) = Inr rest"
  by (simp add: Skip_def Skip_from_well_formed)

text \<open>
  Claim C10. \<open>UnmarshalXML\<close> leaves the receiver as it was when no attribute of the
  start element has the local name \<^verbatim>\<open>embed\<close> (so the \<open>EmbedAttr\<close> of a new \<open>SVGBlip\<close>
  stays the empty string), and otherwise sets \<open>EmbedAttr\<close> to the value of the last
  such attribute. Only the local name is compared: replacing the \<open>Space\<close> of every
  attribute name by anything else changes nothing. On well-formed input, that is
  well-formed content followed by the element's end tag, the content is skipped
  without error and the decoder stands right after the end tag.
\<close>

theorem C10_unmarshal_last_embed:
  "([a \<leftarrow> Attr start. Local (xml_Attr.Name a) = ''embed''] = [] \<longrightarrow>
      fst (SVGBlip_UnmarshalXML s d start) = s \<and>
      SVGBlip.EmbedAttr (fst (SVGBlip_UnmarshalXML \<lparr>SVGBlip.EmbedAttr = ''''\<rparr> d start)) = '''') \<and>
   ([a \<leftarrow> Attr start. Local (xml_Attr.Name a) = ''embed''] \<noteq> [] \<longrightarrow>
      fst (SVGBlip_UnmarshalXML s d start) =
        s\<lparr>SVGBlip.EmbedAttr := Value (last [a \<leftarrow> Attr start. Local (xml_Attr.Name a) = ''embed''])\<rparr>) \<and>
   fst (SVGBlip_UnmarshalXML s d
          (start\<lparr>Attr := map (\<lambda>a. a\<lparr>xml_Attr.Name := (xml_Attr.Name a)\<lparr>Space := sp a\<rparr>\<rparr>) (Attr start)\<rparr>))
     = fst (SVGBlip_UnmarshalXML s d start) \<and>
   (well_formed content \<longrightarrow>
      snd (SVGBlip_UnmarshalXML s (content @ EndElement n # rest) start) = Inr rest)"
proof (intro conjI impI)
  assume none: "[a \<leftarrow> Attr start. Local (xml_Attr.Name a) = ''embed''] = []"
  then show "fst (SVGBlip_UnmarshalXML s d start) = s"
    by (simp add: SVGBlip_UnmarshalXML_def UnmarshalXML_attrs_none)
  from none
  show "SVGBlip.EmbedAttr (fst (SVGBlip_UnmarshalXML \<lparr>SVGBlip.EmbedAttr = ''''\<rparr> d start)) = ''''"
    by (simp add: SVGBlip_UnmarshalXML_def UnmarshalXML_attrs_none)
next
  assume "[a \<leftarrow> Attr start. Local (xml_Attr.Name a) = ''embed''] \<noteq> []"
  then show "fst (SVGBlip_UnmarshalXML s d start) =
        s\<lparr>SVGBlip.EmbedAttr := Value (last [a \<leftarrow> Attr start. Local (xml_Attr.Name a) = ''embed''])\<rparr>"
    by (simp add: SVGBlip_UnmarshalXML_def UnmarshalXML_attrs_last)
next
  have "UnmarshalXML_attrs
          (map (\<lambda>a. a\<lparr>xml_Attr.Name := (xml_Attr.Name a)\<lparr>Space := sp a\<rparr>\<rparr>) attrs) r
        = UnmarshalXML_attrs attrs r" for attrs r
    by (induction attrs arbitrary: r) simp_all
  then show "fst (SVGBlip_UnmarshalXML s d
          (start\<lparr>Attr := map (\<lambda>a. a\<lparr>xml_Attr.Name := (xml_Attr.Name a)\<lparr>Space := sp a\<rparr>\<rparr>) (Attr start)\<rparr>))
     = fst (SVGBlip_UnmarshalXML s d start)"
    by (simp add: SVGBlip_UnmarshalXML_def)
next
  assume "well_formed content"
  then show "snd (SVGBlip_UnmarshalXML s (content @ EndElement n # rest) start) = Inr rest"
    by (simp add: SVGBlip_UnmarshalXML_def Skip_well_formed)
qed

theorem C10_unmarshal_last_embed_witness:
  "well_formed [CharData ''x'', StartElement \<lparr>xml_StartElement.Name = local_name ''a'', Attr = []\<rparr>,
                EndElement (local_name ''a'')] \<and>
   SVGBlip_UnmarshalXML \<lparr>SVGBlip.EmbedAttr = ''''\<rparr>
     ([CharData ''x'', StartElement \<lparr>xml_StartElement.Name = local_name ''a'', Attr = []\<rparr>,
       EndElement (local_name ''a'')] @ EndElement (local_name ''svgBlip'') # [CharData ''y''])
     \<lparr>xml_StartElement.Name = local_name ''svgBlip'',
      Attr = [\<lparr>xml_Attr.Name = \<lparr>Space = '''', Local = ''embed''\<rparr>, Value = ''rId1''\<rparr>,
              \<lparr>xml_Attr.Name = \<lparr>Space = ''r'', Local = ''id''\<rparr>, Value = ''rId2''\<rparr>,
              \<lparr>xml_Attr.Name = \<lparr>Space = ''r'', Local = ''embed''\<rparr>, Value = ''rId7''\<rparr>]\<rparr>
   = (\<lparr>SVGBlip.EmbedAttr = ''rId7''\<rparr>, Inr [CharData ''y''])"
proof -
  let ?el = "\<lparr>xml_StartElement.Name = local_name ''a'', Attr = []\<rparr>"
  have "well_formed (StartElement ?el # [] @ EndElement (xml_StartElement.Name ?el) # [])"
    by (intro well_formed.intros)
  then have wf: "well_formed [CharData ''x'', StartElement ?el, EndElement (local_name ''a'')]"
    by (simp add: wf_CharData)
  show ?thesis
    using wf C10_unmarshal_last_embed
      [of "\<lparr>xml_StartElement.Name = local_name ''svgBlip'',
            Attr = [\<lparr>xml_Attr.Name = \<lparr>Space = '''', Local = ''embed''\<rparr>, Value = ''rId1''\<rparr>,
                    \<lparr>xml_Attr.Name = \<lparr>Space = ''r'', Local = ''id''\<rparr>, Value = ''rId2''\<rparr>,
                    \<lparr>xml_Attr.Name = \<lparr>Space = ''r'', Local = ''embed''\<rparr>, Value = ''rId7''\<rparr>]\<rparr>"
          "\<lparr>SVGBlip.EmbedAttr = ''''\<rparr>"
          "[CharData ''x'', StartElement ?el, EndElement (local_name ''a'')] @
             EndElement (local_name ''svgBlip'') # [CharData ''y'']"
          "\<lambda>a. Space (xml_Attr.Name a)"
          "[CharData ''x'', StartElement ?el, EndElement (local_name ''a'')]"
          "local_name ''svgBlip''" "[CharData ''y'']"]
    by (simp add: prod_eq_iff)
qed

section \<open>Properties of what the encoder writes\<close>


lemma EscapeString_from_drop: "EscapeString_from k s = EscapeString_from 0 (drop k s)"
proof (induction k arbitrary: s)
  case 0
  show ?case by simp
next
  case (Suc k)
  show ?case
  proof (cases s)
    case Nil
    then show ?thesis by simp
  next
    case (Cons c cs)
    then show ?thesis using Suc.IH [of cs] by simp
  qed
qed

lemma xml_characters_from_drop: "xml_characters_from k s = xml_characters_from 0 (drop k s)"
proof (induction k arbitrary: s)
  case 0
  show ?case by simp
next
  case (Suc k)
  show ?case
  proof (cases s)
    case Nil
    then show ?thesis by simp
  next
    case (Cons c cs)
    then show ?thesis using Suc.IH [of cs] by simp
  qed
qed

lemma DecodeRune_width: "1 \<le> snd (DecodeRune (c # cs))"
  by (simp add: DecodeRune_def Let_def)

lemma DecodeRune_ascii:
  "(of_char c :: int) < 0x80 \<Longrightarrow> DecodeRune (c # cs) = (of_char c, 1)"
  by (simp add: DecodeRune_def Let_def)

lemma xml_characters_written:
  "xml_characters_from 0 s \<Longrightarrow> EscapeString_from 0 s = s"
proof (induction s rule: length_induct)
  case (1 s)
  show ?case
  proof (cases s)
    case Nil
    then show ?thesis by simp
  next
    case (Cons c cs)
    obtain r w where d: "DecodeRune (c # cs) = (r, w)"
      by fastforce
    from "1.prems" have good: "isInCharacterRange r" "\<not> (r = RuneError \<and> w = 1)"
      and rest: "xml_characters_from (w - 1) cs"
      by (simp_all add: Cons d)
    have w: "1 \<le> w"
      using DecodeRune_width [of c cs] by (simp add: d)
    then have tail: "drop (w - 1) cs = drop w s"
      by (cases w) (simp_all add: Cons)
    have "xml_characters_from (w - 1) cs = xml_characters_from 0 (drop w s)"
      by (subst xml_characters_from_drop) (simp only: tail)
    with rest have "xml_characters_from 0 (drop w s)"
      by blast
    moreover have "length (drop w s) < length s"
      using w by (simp add: Cons)
    ultimately have IH: "EscapeString_from 0 (drop w s) = drop w s"
      using "1.IH" by blast
    have "EscapeString_from 0 s = take w s @ EscapeString_from (w - 1) cs"
      using good by (auto simp add: Cons d)
    also have "\<dots> = take w s @ EscapeString_from 0 (drop w s)"
      by (subst EscapeString_from_drop) (simp only: tail)
    also have "\<dots> = s"
      by (simp add: IH)
    finally show ?thesis .
  qed
qed

lemma xml_characters_EscapeString: "xml_characters s \<Longrightarrow> EscapeString s = s"
  by (simp add: xml_characters_def EscapeString_def xml_characters_written)

lemma xml_ascii_characters: "list_all xml_ascii s \<Longrightarrow> xml_characters s"
proof -
  have "list_all xml_ascii s \<Longrightarrow> xml_characters_from 0 s"
  proof (induction s)
    case Nil
    show ?case by simp
  next
    case (Cons c cs)
    from Cons.prems have a: "xml_ascii c" and "list_all xml_ascii cs"
      by simp_all
    then have tl: "xml_characters_from 0 cs"
      using Cons.IH by simp
    from a have lt: "(of_char c :: int) < 0x80"
      by (auto simp add: xml_ascii_def Let_def)
    from a have ok: "isInCharacterRange (of_char c)" "(of_char c :: int) \<noteq> RuneError"
      by (auto simp add: xml_ascii_def Let_def isInCharacterRange_def RuneError_def)
    show ?case
      using tl ok by (simp add: DecodeRune_ascii [OF lt])
  qed
  then show "list_all xml_ascii s \<Longrightarrow> xml_characters s"
    by (simp add: xml_characters_def)
qed

lemma SVGBlip_roundtrip_eq:
  "SVGBlip_roundtrip t = (\<lparr>SVGBlip.EmbedAttr = EscapeString t\<rparr>, Inr [])"
proof -
  have ns: "nsname ''r:embed'' = \<lparr>Space = ''r'', Local = ''embed''\<rparr>"
           "Local (nsname ''xmlns:asvg'') \<noteq> ''embed''"
    by (simp_all add: nsname_def)
  show ?thesis
    by (simp add: SVGBlip_roundtrip_def xml_Marshal_SVGBlip_def SVGBlip_MarshalXML_def
        EncodeToken_def NewEncoder_def written_start_def written_attr_def
        local_name_def attr_def read_attr_def SVGBlip_UnmarshalXML_def Skip_def ns)
qed

text \<open>
  Claim C4, as the code has it. Marshalling an \<open>SVGBlip\<close> whose \<open>EmbedAttr\<close> is \<open>t\<close> and
  unmarshalling what was written gives an \<open>SVGBlip\<close> whose \<open>EmbedAttr\<close> is
  \<open>EscapeString t\<close>, and the whole element is consumed without error: the attribute is
  written under the name \<^verbatim>\<open>r:embed\<close>, which the reader splits into the prefix \<^verbatim>\<open>r\<close> and
  the local name \<^verbatim>\<open>embed\<close> that \<open>UnmarshalXML\<close> looks for. The result is \<open>t\<close> itself
  for every \<open>t\<close> that is well-formed UTF-8 of characters XML allows, in particular for
  every \<open>t\<close> of tab, newline, carriage return and ASCII characters from the space on;
  in any other \<open>t\<close> each character XML does not allow and each byte outside a rune
  comes back as U+FFFD. When exactly one attribute of the input element has the local
  name \<^verbatim>\<open>embed\<close>, unmarshalling recovers its value whatever the order of the
  attributes: every permutation of the attribute list gives the same \<open>EmbedAttr\<close>.
\<close>

theorem C4_svgblip_roundtrip:
  "SVGBlip_roundtrip t = (\<lparr>SVGBlip.EmbedAttr = EscapeString t\<rparr>, Inr []) \<and>
   (xml_characters t \<longrightarrow> SVGBlip_roundtrip t = (\<lparr>SVGBlip.EmbedAttr = t\<rparr>, Inr [])) \<and>
   (list_all xml_ascii t \<longrightarrow> xml_characters t) \<and>
   (\<forall>a. mset attrs' = mset attrs \<longrightarrow>
        [b \<leftarrow> attrs. Local (xml_Attr.Name b) = ''embed''] = [a] \<longrightarrow>
        SVGBlip.EmbedAttr (fst (SVGBlip_UnmarshalXML s d \<lparr>xml_StartElement.Name = n, Attr = attrs\<rparr>)) = Value a \<and>
        SVGBlip.EmbedAttr (fst (SVGBlip_UnmarshalXML s d \<lparr>xml_StartElement.Name = n, Attr = attrs'\<rparr>)) = Value a)"
proof (intro conjI allI impI)
  show "SVGBlip_roundtrip t = (\<lparr>SVGBlip.EmbedAttr = EscapeString t\<rparr>, Inr [])"
    by (rule SVGBlip_roundtrip_eq)
next
  assume "xml_characters t"
  then show "SVGBlip_roundtrip t = (\<lparr>SVGBlip.EmbedAttr = t\<rparr>, Inr [])"
    by (simp add: SVGBlip_roundtrip_eq xml_characters_EscapeString)
next
  assume "list_all xml_ascii t"
  then show "xml_characters t"
    by (rule xml_ascii_characters)
next
  fix a
  assume perm: "mset attrs' = mset attrs"
    and one: "[b \<leftarrow> attrs. Local (xml_Attr.Name b) = ''embed''] = [a]"
  have "mset [b \<leftarrow> attrs'. Local (xml_Attr.Name b) = ''embed'']
        = mset [b \<leftarrow> attrs. Local (xml_Attr.Name b) = ''embed'']"
    using perm by (simp only: mset_filter)
  with one have "mset [b \<leftarrow> attrs'. Local (xml_Attr.Name b) = ''embed''] = {#a#}"
    by (simp only: mset.simps)
  then have one': "[b \<leftarrow> attrs'. Local (xml_Attr.Name b) = ''embed''] = [a]"
    by (simp only: mset_single_iff)
  show "SVGBlip.EmbedAttr (fst (SVGBlip_UnmarshalXML s d \<lparr>xml_StartElement.Name = n, Attr = attrs\<rparr>)) = Value a"
    using one by (simp add: SVGBlip_UnmarshalXML_def UnmarshalXML_attrs_last)
  show "SVGBlip.EmbedAttr (fst (SVGBlip_UnmarshalXML s d \<lparr>xml_StartElement.Name = n, Attr = attrs'\<rparr>)) = Value a"
    using one' by (simp add: SVGBlip_UnmarshalXML_def UnmarshalXML_attrs_last)
qed

theorem C4_svgblip_roundtrip_witness:
  "list_all xml_ascii ''rId7'' \<and> xml_characters ''rId7'' \<and>
   SVGBlip_roundtrip ''rId7'' = (\<lparr>SVGBlip.EmbedAttr = ''rId7''\<rparr>, Inr []) \<and>
   xml_characters [CHR 0x72, CHR 0xC3, CHR 0xA9, CHR 0x37] \<and>
   SVGBlip_roundtrip [CHR 0x72, CHR 0xC3, CHR 0xA9, CHR 0x37]
     = (\<lparr>SVGBlip.EmbedAttr = [CHR 0x72, CHR 0xC3, CHR 0xA9, CHR 0x37]\<rparr>, Inr []) \<and>
   SVGBlip.EmbedAttr (fst (SVGBlip_UnmarshalXML \<lparr>SVGBlip.EmbedAttr = ''''\<rparr> []
     \<lparr>xml_StartElement.Name = \<lparr>Space = ''asvg'', Local = ''svgBlip''\<rparr>,
      Attr = [\<lparr>xml_Attr.Name = \<lparr>Space = ''r'', Local = ''embed''\<rparr>, Value = ''rId7''\<rparr>,
              \<lparr>xml_Attr.Name = \<lparr>Space = ''xmlns'', Local = ''asvg''\<rparr>, Value = SVGBlipNS\<rparr>]\<rparr>)) = ''rId7''"
proof -
  have a: "list_all xml_ascii ''rId7''"
    by (simp add: xml_ascii_def)
  have u: "xml_characters [CHR 0x72, CHR 0xC3, CHR 0xA9, CHR 0x37]"
    by code_simp
  show ?thesis
    using a u
      C4_svgblip_roundtrip
        [of "''rId7''"
          "[\<lparr>xml_Attr.Name = \<lparr>Space = ''r'', Local = ''embed''\<rparr>, Value = ''rId7''\<rparr>,
            \<lparr>xml_Attr.Name = \<lparr>Space = ''xmlns'', Local = ''asvg''\<rparr>, Value = SVGBlipNS\<rparr>]"
          "[\<lparr>xml_Attr.Name = \<lparr>Space = ''xmlns'', Local = ''asvg''\<rparr>, Value = SVGBlipNS\<rparr>,
            \<lparr>xml_Attr.Name = \<lparr>Space = ''r'', Local = ''embed''\<rparr>, Value = ''rId7''\<rparr>]"
          "\<lparr>SVGBlip.EmbedAttr = ''''\<rparr>" "[]" "\<lparr>Space = ''asvg'', Local = ''svgBlip''\<rparr>"]
      C4_svgblip_roundtrip
        [of "[CHR 0x72, CHR 0xC3, CHR 0xA9, CHR 0x37]" "[]" "[]" "\<lparr>SVGBlip.EmbedAttr = ''''\<rparr>" "[]"
          "\<lparr>Space = ''asvg'', Local = ''svgBlip''\<rparr>"]
    by auto
qed

theorem C4_roundtrip_not_exact:
  "SVGBlip_roundtrip [CHR ''a'', CHR 0x00, CHR ''b'']
     = (\<lparr>SVGBlip.EmbedAttr = [CHR ''a'', CHR 0xEF, CHR 0xBF, CHR 0xBD, CHR ''b'']\<rparr>, Inr []) \<and>
   SVGBlip.EmbedAttr (fst (SVGBlip_UnmarshalXML \<lparr>SVGBlip.EmbedAttr = ''''\<rparr> []
     \<lparr>xml_StartElement.Name = \<lparr>Space = ''asvg'', Local = ''svgBlip''\<rparr>,
      Attr = [\<lparr>xml_Attr.Name = \<lparr>Space = '''', Local = ''embed''\<rparr>, Value = ''rId1''\<rparr>,
              \<lparr>xml_Attr.Name = \<lparr>Space = ''r'', Local = ''embed''\<rparr>, Value = ''rId2''\<rparr>]\<rparr>)) = ''rId2'' \<and>
   SVGBlip.EmbedAttr (fst (SVGBlip_UnmarshalXML \<lparr>SVGBlip.EmbedAttr = ''''\<rparr> []
     \<lparr>xml_StartElement.Name = \<lparr>Space = ''asvg'', Local = ''svgBlip''\<rparr>,
      Attr = [\<lparr>xml_Attr.Name = \<lparr>Space = ''r'', Local = ''embed''\<rparr>, Value = ''rId2''\<rparr>,
              \<lparr>xml_Attr.Name = \<lparr>Space = '''', Local = ''embed''\<rparr>, Value = ''rId1''\<rparr>]\<rparr>)) = ''rId1''"
proof -
  have "EscapeString [CHR ''a'', CHR 0x00, CHR ''b'']
      = [CHR ''a'', CHR 0xEF, CHR 0xBF, CHR 0xBD, CHR ''b'']"
    by (simp add: EscapeString_def DecodeRune_def isInCharacterRange_def RuneError_def
        escFFFD_def)
  then show ?thesis
    by (simp add: SVGBlip_roundtrip_eq SVGBlip_UnmarshalXML_def)
qed

section \<open>Properties of the wrapper serialization\<close>












section \<open>Properties of \<^verbatim>\<open>AddDrawingInlineSVG\<close>\<close>

lemmas new_defs = NewCT_PositiveSize2D_def NewCT_Point2D_def NewCT_Transform2D_def
  NewCT_PresetGeometry2D_def NewCT_ShapeProperties_def NewCT_OfficeArtExtension_def
  NewCT_OfficeArtExtensionList_def NewCT_Blip_def NewCT_RelativeRect_def
  NewCT_StretchInfoProperties_def NewCT_BlipFillProperties_def NewPic_def
  NewCT_GraphicalObjectData_def NewGraphic_def NewCT_NonVisualGraphicFrameProperties_def
  NewWdInline_def NewCT_Drawing_def NewAC_ChoiceRun_def SetRequires_def

lemmas path_defs = drawing_inline_def choice_inline_def fallback_inline_def inline_pic_def
  pic_blip_def pic_ext_def choice_pic_def fallback_pic_def

lemma Extra_update_eq: "(r\<lparr>Extra := a\<rparr> = r\<lparr>Extra := b\<rparr>) = (a = b)"
  by (cases r) simp

lemma AddDrawingInlineSVG_error:
  "RelID pngImg = '''' \<or> RelID svgImg = '''' \<Longrightarrow>
   \<exists>ci msg. AddDrawingInlineSVG m g r svgImg pngImg =
     ((ci, Some (ReferenceError msg)), r, snd (rand_Uint32 g))"
  by (auto simp add: AddDrawingInlineSVG_def Let_def split_def)

lemma AddDrawingInlineSVG_success:
  assumes "RelID pngImg \<noteq> ''''" "RelID svgImg \<noteq> ''''"
  shows "\<exists>ac ci fi cp fp cb fb.
     AddDrawingInlineSVG m g r svgImg pngImg =
       ((ci, None), r\<lparr>Extra := Extra r @ [AnyAlternateContentSVGRun ac]\<rparr>,
        snd (rand_Uint32 (snd (rand_Uint32 g)))) \<and>
     choice_inline ac = Some ci \<and> fallback_inline ac = Some fi \<and>
     inline_pic ci = Some cp \<and> inline_pic fi = Some fp \<and>
     pic_blip cp = Some cb \<and> pic_blip fp = Some fb \<and>
     CT_Blip.EmbedAttr cb = Some (RelID pngImg) \<and>
     ExtLst cb = Some \<lparr>CT_OfficeArtExtensionList.Ext =
        [\<lparr>CT_OfficeArtExtension.UriAttr = SVGBlipURI,
          Any = [\<lparr>SVGBlip.EmbedAttr = RelID svgImg\<rparr>]\<rparr>]\<rparr> \<and>
     CT_Blip.EmbedAttr fb = Some (RelID pngImg) \<and> ExtLst fb = None \<and>
     SpPr fp = SpPr cp \<and>
     SpPr cp = Some \<lparr>Xfrm = Some \<lparr>Off = Some \<lparr>XAttr = Some 0, YAttr = Some 0\<rparr>,
         Ext = Some \<lparr>CxAttr = wrap64 (Size_X (img pngImg) * Point m),
                     CyAttr = wrap64 (Size_Y (img pngImg) * Point m)\<rparr>\<rparr>,
       PrstGeom = Some \<lparr>PrstAttr = ST_ShapeTypeRect\<rparr>\<rparr> \<and>
     Extent fi = Extent ci \<and>
     Extent ci = \<lparr>CxAttr = div_EMU m (wrap64 (Size_X (img pngImg) * Pixel72 m)),
                  CyAttr = div_EMU m (wrap64 (Size_Y (img pngImg) * Pixel72 m))\<rparr> \<and>
     DocPr_IdAttr ci = 0x7FFFFFFF AND draws g (drawn g) \<and>
     DocPr_IdAttr fi = 0x7FFFFFFF AND draws g (Suc (drawn g)) \<and>
     CNvPr_IdAttr cp = DocPr_IdAttr ci \<and> CNvPr_IdAttr fp = DocPr_IdAttr fi \<and>
     Requires (the (Choice ac)) = ''asvg''"
  using assms
  by (simp add: AddDrawingInlineSVG_def Let_def split_def new_defs path_defs rand_Uint32_def Extra_update_eq)


lemma masked_id_bound: "unat ((0x7FFFFFFF :: 32 word) AND w) < 2 ^ 31"
proof -
  have "unat ((0x7FFFFFFF :: 32 word) AND w) \<le> unat (0x7FFFFFFF :: 32 word)"
    by (rule word_and_le2 [THEN word_le_nat_alt [THEN iffD1]])
  then show ?thesis by simp
qed

lemma masked_id_top_bit: "\<not> bit ((0x7FFFFFFF :: 32 word) AND w) 31"
  by (simp add: bit_and_iff)

lemmas scenario_defs = scenario_png_def scenario_svg_def scenario_measurement_def
  scenario_rand_def scenario_run_def

text \<open>
  Claim C1. When both references have a non-empty relationship id, the call appends one
  fragment. The picture of its preferred (\<open>Choice\<close>) branch has a blip that embeds the
  PNG reference's relationship id and carries an extension list with exactly one
  extension, whose URI is the constant \<open>SVGBlipURI\<close> and whose payload is one \<open>SVGBlip\<close>
  referring to the SVG reference's relationship id. The picture of the fallback branch
  has a blip that embeds the PNG relationship id and has no extension list. The shape
  properties of the two pictures (transform and preset geometry, the rectangle) are
  equal.
\<close>

theorem C1_fragment_shape:
  assumes "RelID pngImg \<noteq> ''''" and "RelID svgImg \<noteq> ''''"
  shows "\<exists>ac cp fp cb fb.
     Extra (fst (snd (AddDrawingInlineSVG m g r svgImg pngImg)))
       = Extra r @ [AnyAlternateContentSVGRun ac] \<and>
     choice_pic ac = Some cp \<and> pic_blip cp = Some cb \<and>
     CT_Blip.EmbedAttr cb = Some (RelID pngImg) \<and>
     ExtLst cb = Some \<lparr>CT_OfficeArtExtensionList.Ext =
        [\<lparr>CT_OfficeArtExtension.UriAttr = SVGBlipURI,
          Any = [\<lparr>SVGBlip.EmbedAttr = RelID svgImg\<rparr>]\<rparr>]\<rparr> \<and>
     fallback_pic ac = Some fp \<and> pic_blip fp = Some fb \<and>
     CT_Blip.EmbedAttr fb = Some (RelID pngImg) \<and> ExtLst fb = None \<and>
     SpPr fp = SpPr cp \<and>
     (\<exists>sp x. SpPr cp = Some sp \<and> Xfrm sp = Some x \<and>
        PrstGeom sp = Some \<lparr>PrstAttr = ST_ShapeTypeRect\<rparr>)"
proof -
  from AddDrawingInlineSVG_success [OF assms, of m g r]
  obtain ac ci fi cp fp cb fb where
    res: "AddDrawingInlineSVG m g r svgImg pngImg =
       ((ci, None), r\<lparr>Extra := Extra r @ [AnyAlternateContentSVGRun ac]\<rparr>,
        snd (rand_Uint32 (snd (rand_Uint32 g))))"
    and paths: "choice_inline ac = Some ci" "fallback_inline ac = Some fi"
      "inline_pic ci = Some cp" "inline_pic fi = Some fp"
      "pic_blip cp = Some cb" "pic_blip fp = Some fb"
    and blips: "CT_Blip.EmbedAttr cb = Some (RelID pngImg)"
      "ExtLst cb = Some \<lparr>CT_OfficeArtExtensionList.Ext =
        [\<lparr>CT_OfficeArtExtension.UriAttr = SVGBlipURI,
          Any = [\<lparr>SVGBlip.EmbedAttr = RelID svgImg\<rparr>]\<rparr>]\<rparr>"
      "CT_Blip.EmbedAttr fb = Some (RelID pngImg)" "ExtLst fb = None"
    and shape: "SpPr fp = SpPr cp"
      "SpPr cp = Some \<lparr>Xfrm = Some \<lparr>Off = Some \<lparr>XAttr = Some 0, YAttr = Some 0\<rparr>,
         Ext = Some \<lparr>CxAttr = wrap64 (Size_X (img pngImg) * Point m),
                     CyAttr = wrap64 (Size_Y (img pngImg) * Point m)\<rparr>\<rparr>,
       PrstGeom = Some \<lparr>PrstAttr = ST_ShapeTypeRect\<rparr>\<rparr>"
    by blast
  have "choice_pic ac = Some cp" "fallback_pic ac = Some fp"
    using paths by (simp_all add: choice_pic_def fallback_pic_def)
  moreover have "Extra (fst (snd (AddDrawingInlineSVG m g r svgImg pngImg)))
       = Extra r @ [AnyAlternateContentSVGRun ac]"
    by (simp add: res)
  ultimately show ?thesis
    using paths blips shape by auto
qed

theorem C1_fragment_shape_witness:
  "RelID scenario_png \<noteq> '''' \<and> RelID scenario_svg \<noteq> '''' \<and>
   (\<exists>ac cp fp cb fb.
     Extra (fst (snd (AddDrawingInlineSVG scenario_measurement scenario_rand scenario_run
                        scenario_svg scenario_png)))
       = Extra scenario_run @ [AnyAlternateContentSVGRun ac] \<and>
     choice_pic ac = Some cp \<and> pic_blip cp = Some cb \<and>
     CT_Blip.EmbedAttr cb = Some ''rId1'' \<and>
     ExtLst cb = Some \<lparr>CT_OfficeArtExtensionList.Ext =
        [\<lparr>CT_OfficeArtExtension.UriAttr = SVGBlipURI,
          Any = [\<lparr>SVGBlip.EmbedAttr = ''rId2''\<rparr>]\<rparr>]\<rparr> \<and>
     fallback_pic ac = Some fp \<and> pic_blip fp = Some fb \<and>
     CT_Blip.EmbedAttr fb = Some ''rId1'' \<and> ExtLst fb = None \<and>
     SpPr fp = SpPr cp \<and>
     (\<exists>sp x. SpPr cp = Some sp \<and> Xfrm sp = Some x \<and>
        PrstGeom sp = Some \<lparr>PrstAttr = ST_ShapeTypeRect\<rparr>))"
proof -
  have ids: "RelID scenario_png = ''rId1''" "RelID scenario_svg = ''rId2''"
    by (simp_all add: RelID_def scenario_defs)
  have ne: "RelID scenario_png \<noteq> ''''" "RelID scenario_svg \<noteq> ''''"
    by (simp_all add: ids)
  show ?thesis
    using ne C1_fragment_shape [OF ne, of scenario_measurement scenario_rand scenario_run]
    by (simp only: ids) blast
qed

text \<open>
  Claim C2. On every successful call the inline extent of the fallback branch equals
  that of the preferred branch, and so does the extent of the shape transform. Both
  are computed from the pixel size of the PNG reference alone with fixed factors: the
  inline extent is \<open>div_EMU (size * Pixel72)\<close> and the transform extent is
  \<open>size * Point\<close>, in each dimension.
\<close>

theorem C2_extents_equal:
  assumes "RelID pngImg \<noteq> ''''" and "RelID svgImg \<noteq> ''''"
  shows "\<exists>ac ci fi cp fp.
     snd (fst (AddDrawingInlineSVG m g r svgImg pngImg)) = None \<and>
     Extra (fst (snd (AddDrawingInlineSVG m g r svgImg pngImg)))
       = Extra r @ [AnyAlternateContentSVGRun ac] \<and>
     choice_inline ac = Some ci \<and> fallback_inline ac = Some fi \<and>
     inline_pic ci = Some cp \<and> inline_pic fi = Some fp \<and>
     Extent fi = Extent ci \<and>
     Extent ci = \<lparr>CxAttr = div_EMU m (wrap64 (Size_X (img pngImg) * Pixel72 m)),
                  CyAttr = div_EMU m (wrap64 (Size_Y (img pngImg) * Pixel72 m))\<rparr> \<and>
     pic_ext fp = pic_ext cp \<and>
     pic_ext cp = Some \<lparr>CxAttr = wrap64 (Size_X (img pngImg) * Point m),
                         CyAttr = wrap64 (Size_Y (img pngImg) * Point m)\<rparr>"
proof -
  from AddDrawingInlineSVG_success [OF assms, of m g r]
  obtain ac ci fi cp fp where
    res: "AddDrawingInlineSVG m g r svgImg pngImg =
       ((ci, None), r\<lparr>Extra := Extra r @ [AnyAlternateContentSVGRun ac]\<rparr>,
        snd (rand_Uint32 (snd (rand_Uint32 g))))"
    and paths: "choice_inline ac = Some ci" "fallback_inline ac = Some fi"
      "inline_pic ci = Some cp" "inline_pic fi = Some fp"
    and shape: "SpPr fp = SpPr cp"
      "SpPr cp = Some \<lparr>Xfrm = Some \<lparr>Off = Some \<lparr>XAttr = Some 0, YAttr = Some 0\<rparr>,
         Ext = Some \<lparr>CxAttr = wrap64 (Size_X (img pngImg) * Point m),
                     CyAttr = wrap64 (Size_Y (img pngImg) * Point m)\<rparr>\<rparr>,
       PrstGeom = Some \<lparr>PrstAttr = ST_ShapeTypeRect\<rparr>\<rparr>"
    and extent: "Extent fi = Extent ci"
      "Extent ci = \<lparr>CxAttr = div_EMU m (wrap64 (Size_X (img pngImg) * Pixel72 m)),
                  CyAttr = div_EMU m (wrap64 (Size_Y (img pngImg) * Pixel72 m))\<rparr>"
    by blast
  have "pic_ext fp = pic_ext cp"
    "pic_ext cp = Some \<lparr>CxAttr = wrap64 (Size_X (img pngImg) * Point m),
                         CyAttr = wrap64 (Size_Y (img pngImg) * Point m)\<rparr>"
    using shape by (simp_all add: pic_ext_def)
  moreover have "snd (fst (AddDrawingInlineSVG m g r svgImg pngImg)) = None"
    "Extra (fst (snd (AddDrawingInlineSVG m g r svgImg pngImg)))
       = Extra r @ [AnyAlternateContentSVGRun ac]"
    by (simp_all add: res)
  ultimately show ?thesis
    using paths extent by blast
qed

theorem C2_extents_equal_witness:
  "RelID scenario_png \<noteq> '''' \<and> RelID scenario_svg \<noteq> '''' \<and>
   (\<exists>ac ci fi cp fp.
     snd (fst (AddDrawingInlineSVG scenario_measurement scenario_rand scenario_run
                 scenario_svg scenario_png)) = None \<and>
     Extra (fst (snd (AddDrawingInlineSVG scenario_measurement scenario_rand scenario_run
                        scenario_svg scenario_png)))
       = Extra scenario_run @ [AnyAlternateContentSVGRun ac] \<and>
     choice_inline ac = Some ci \<and> fallback_inline ac = Some fi \<and>
     inline_pic ci = Some cp \<and> inline_pic fi = Some fp \<and>
     Extent fi = Extent ci \<and>
     Extent ci = \<lparr>CxAttr = 2540000, CyAttr = 1270000\<rparr> \<and>
     pic_ext fp = pic_ext cp \<and>
     pic_ext cp = Some \<lparr>CxAttr = 200, CyAttr = 100\<rparr>)"
proof -
  have ne: "RelID scenario_png \<noteq> ''''" "RelID scenario_svg \<noteq> ''''"
    by (simp_all add: RelID_def scenario_defs)
  have vals: "div_EMU scenario_measurement
                (wrap64 (Size_X (img scenario_png) * Pixel72 scenario_measurement)) = 2540000"
    "div_EMU scenario_measurement
                (wrap64 (Size_Y (img scenario_png) * Pixel72 scenario_measurement)) = 1270000"
    "wrap64 (Size_X (img scenario_png) * Point scenario_measurement) = 200"
    "wrap64 (Size_Y (img scenario_png) * Point scenario_measurement) = 100"
    by (simp_all add: scenario_defs wrap64_def)
  show ?thesis
    using ne C2_extents_equal [OF ne, of scenario_measurement scenario_rand scenario_run]
    by (simp only: vals) blast
qed

text \<open>
  Claim C7. The call returns a \<open>ReferenceError\<close> exactly when the relationship id of
  the PNG reference or of the SVG reference is the empty string, and no error
  otherwise. On the error path the run is unchanged: nothing is appended to its extra
  content. On success exactly one fragment is appended and the content that was there
  is kept.
\<close>

theorem C7_reference_error:
  "((\<exists>msg. snd (fst (AddDrawingInlineSVG m g r svgImg pngImg)) = Some (ReferenceError msg))
      \<longleftrightarrow> (RelID pngImg = '''' \<or> RelID svgImg = '''')) \<and>
   (snd (fst (AddDrawingInlineSVG m g r svgImg pngImg)) = None
      \<longleftrightarrow> (RelID pngImg \<noteq> '''' \<and> RelID svgImg \<noteq> '''')) \<and>
   (snd (fst (AddDrawingInlineSVG m g r svgImg pngImg)) \<noteq> None \<longrightarrow>
      fst (snd (AddDrawingInlineSVG m g r svgImg pngImg)) = r) \<and>
   (snd (fst (AddDrawingInlineSVG m g r svgImg pngImg)) = None \<longrightarrow>
      (\<exists>ac. Extra (fst (snd (AddDrawingInlineSVG m g r svgImg pngImg)))
               = Extra r @ [AnyAlternateContentSVGRun ac]) \<and>
      length (Extra (fst (snd (AddDrawingInlineSVG m g r svgImg pngImg))))
        = Suc (length (Extra r)))"
proof (cases "RelID pngImg = '''' \<or> RelID svgImg = ''''")
  case True
  from AddDrawingInlineSVG_error [OF True, of m g r]
  obtain ci msg where "AddDrawingInlineSVG m g r svgImg pngImg =
     ((ci, Some (ReferenceError msg)), r, snd (rand_Uint32 g))"
    by blast
  with True show ?thesis by auto
next
  case False
  then have ne: "RelID pngImg \<noteq> ''''" "RelID svgImg \<noteq> ''''"
    by simp_all
  from AddDrawingInlineSVG_success [OF ne, of m g r]
  obtain ac ci where "AddDrawingInlineSVG m g r svgImg pngImg =
       ((ci, None), r\<lparr>Extra := Extra r @ [AnyAlternateContentSVGRun ac]\<rparr>,
        snd (rand_Uint32 (snd (rand_Uint32 g))))"
    by blast
  with ne show ?thesis by auto
qed

theorem C7_reference_error_witness:
  "snd (fst (AddDrawingInlineSVG scenario_measurement scenario_rand scenario_run
               scenario_svg (MakeImageRef (img scenario_png)))) \<noteq> None \<and>
   fst (snd (AddDrawingInlineSVG scenario_measurement scenario_rand scenario_run
               scenario_svg (MakeImageRef (img scenario_png)))) = scenario_run \<and>
   snd (fst (AddDrawingInlineSVG scenario_measurement scenario_rand scenario_run
               scenario_svg scenario_png)) = None \<and>
   length (Extra (fst (snd (AddDrawingInlineSVG scenario_measurement scenario_rand scenario_run
               scenario_svg scenario_png)))) = Suc (length (Extra scenario_run))"
proof -
  have e: "RelID (MakeImageRef (img scenario_png)) = ''''"
    by (simp add: RelID_def MakeImageRef_def)
  have ne: "RelID scenario_png \<noteq> ''''" "RelID scenario_svg \<noteq> ''''"
    by (simp_all add: RelID_def scenario_defs)
  show ?thesis
    using C7_reference_error [of scenario_measurement scenario_rand scenario_run
        scenario_svg "MakeImageRef (img scenario_png)"]
      C7_reference_error [of scenario_measurement scenario_rand scenario_run
        scenario_svg scenario_png] e ne
    by auto
qed

lemma mask31: "(0x7FFFFFFF :: 32 word) AND w = take_bit 31 w"
proof -
  have "(0x7FFFFFFF :: 32 word) = mask 31"
    by (simp add: mask_eq_exp_minus_1)
  then show ?thesis
    by (simp add: take_bit_eq_mask and.commute)
qed

text \<open>
  Claim C9, as the code has it. On every successful call the object id of each branch
  is the low 31 bits of a value drawn from the random source (the first draw for the
  preferred branch, the second for the fallback branch), so it lies in the range from
  0 to \<open>2 ^ 31 - 1\<close> and its top bit is clear; the picture of a branch bears the id of
  its inline. The two ids are equal exactly when the two draws agree on their low 31
  bits: nothing makes them distinct.
\<close>

theorem C9_object_ids:
  assumes "RelID pngImg \<noteq> ''''" and "RelID svgImg \<noteq> ''''"
  shows "\<exists>ac ci fi cp fp.
     Extra (fst (snd (AddDrawingInlineSVG m g r svgImg pngImg)))
       = Extra r @ [AnyAlternateContentSVGRun ac] \<and>
     choice_inline ac = Some ci \<and> fallback_inline ac = Some fi \<and>
     inline_pic ci = Some cp \<and> inline_pic fi = Some fp \<and>
     DocPr_IdAttr ci = 0x7FFFFFFF AND draws g (drawn g) \<and>
     DocPr_IdAttr fi = 0x7FFFFFFF AND draws g (Suc (drawn g)) \<and>
     CNvPr_IdAttr cp = DocPr_IdAttr ci \<and> CNvPr_IdAttr fp = DocPr_IdAttr fi \<and>
     unat (DocPr_IdAttr ci) < 2 ^ 31 \<and> unat (DocPr_IdAttr fi) < 2 ^ 31 \<and>
     \<not> bit (DocPr_IdAttr ci) 31 \<and> \<not> bit (DocPr_IdAttr fi) 31 \<and>
     (DocPr_IdAttr ci = DocPr_IdAttr fi \<longleftrightarrow>
        take_bit 31 (draws g (drawn g)) = take_bit 31 (draws g (Suc (drawn g))))"
proof -
  from AddDrawingInlineSVG_success [OF assms, of m g r]
  obtain ac ci fi cp fp where
    res: "AddDrawingInlineSVG m g r svgImg pngImg =
       ((ci, None), r\<lparr>Extra := Extra r @ [AnyAlternateContentSVGRun ac]\<rparr>,
        snd (rand_Uint32 (snd (rand_Uint32 g))))"
    and paths: "choice_inline ac = Some ci" "fallback_inline ac = Some fi"
      "inline_pic ci = Some cp" "inline_pic fi = Some fp"
    and ids: "DocPr_IdAttr ci = 0x7FFFFFFF AND draws g (drawn g)"
      "DocPr_IdAttr fi = 0x7FFFFFFF AND draws g (Suc (drawn g))"
      "CNvPr_IdAttr cp = DocPr_IdAttr ci" "CNvPr_IdAttr fp = DocPr_IdAttr fi"
    by blast
  have bounds: "unat (DocPr_IdAttr ci) < 2 ^ 31" "unat (DocPr_IdAttr fi) < 2 ^ 31"
    "\<not> bit (DocPr_IdAttr ci) 31" "\<not> bit (DocPr_IdAttr fi) 31"
    by (simp_all only: ids masked_id_bound masked_id_top_bit not_False_eq_True)
  have eq: "DocPr_IdAttr ci = DocPr_IdAttr fi \<longleftrightarrow>
        take_bit 31 (draws g (drawn g)) = take_bit 31 (draws g (Suc (drawn g)))"
    by (simp only: ids mask31)
  have "Extra (fst (snd (AddDrawingInlineSVG m g r svgImg pngImg)))
       = Extra r @ [AnyAlternateContentSVGRun ac]"
    by (simp add: res)
  then show ?thesis
    using paths ids bounds eq by blast
qed

theorem C9_object_ids_witness:
  "RelID scenario_png \<noteq> '''' \<and> RelID scenario_svg \<noteq> '''' \<and>
   (\<exists>ac ci fi cp fp.
     Extra (fst (snd (AddDrawingInlineSVG scenario_measurement scenario_rand scenario_run
                        scenario_svg scenario_png)))
       = Extra scenario_run @ [AnyAlternateContentSVGRun ac] \<and>
     choice_inline ac = Some ci \<and> fallback_inline ac = Some fi \<and>
     inline_pic ci = Some cp \<and> inline_pic fi = Some fp \<and>
     DocPr_IdAttr ci = 1 \<and> DocPr_IdAttr fi = 1 \<and>
     CNvPr_IdAttr cp = DocPr_IdAttr ci \<and> CNvPr_IdAttr fp = DocPr_IdAttr fi \<and>
     unat (DocPr_IdAttr ci) < 2 ^ 31 \<and> unat (DocPr_IdAttr fi) < 2 ^ 31)"
proof -
  have ne: "RelID scenario_png \<noteq> ''''" "RelID scenario_svg \<noteq> ''''"
    by (simp_all add: RelID_def scenario_defs)
  have vals: "0x7FFFFFFF AND draws scenario_rand (drawn scenario_rand) = 1"
    "0x7FFFFFFF AND draws scenario_rand (Suc (drawn scenario_rand)) = 1"
    by (simp_all add: scenario_defs)
  show ?thesis
    using ne C9_object_ids [OF ne, of scenario_measurement scenario_rand scenario_run]
    by (simp only: vals) blast
qed

theorem C9_ids_collide:
  "snd (fst (AddDrawingInlineSVG scenario_measurement scenario_rand scenario_run
               scenario_svg scenario_png)) = None \<and>
   draws scenario_rand 0 \<noteq> draws scenario_rand 1 \<and>
   map fragment_ids
     (fragments (Extra (fst (snd (AddDrawingInlineSVG scenario_measurement scenario_rand
        scenario_run scenario_svg scenario_png)))))
     = [(Some 1, Some 1)]"
  by (simp add: AddDrawingInlineSVG_def Let_def split_def new_defs path_defs rand_Uint32_def
      RelID_def scenario_defs fragment_ids_def)

section \<open>Properties of \<^verbatim>\<open>AddImageSVG\<close>\<close>

lemma of_char_digit_char: "k < 10 \<Longrightarrow> (of_char (digit_char k) :: nat) = 48 + k"
  by (simp add: digit_char_def)

lemma itoa_unfold:
  "itoa n = (if n < 10 then [digit_char n] else itoa (n div 10) @ [digit_char (n mod 10)])"
  by (rule itoa.simps)

lemma itoa_inverse:
  "foldl (\<lambda>acc c. acc * 10 + (of_char c - 48)) 0 (itoa n) = n"
proof (induction n rule: itoa.induct)
  case (1 n)
  show ?case
  proof (cases "n < 10")
    case True
    then show ?thesis
      by (subst itoa_unfold) (simp add: of_char_digit_char)
  next
    case False
    then have IH: "foldl (\<lambda>acc c. acc * 10 + (of_char c - 48)) 0 (itoa (n div 10)) = n div 10"
      using "1.IH" by simp
    have "n mod 10 < 10" by simp
    then have d: "(of_char (digit_char (n mod 10)) :: nat) = 48 + n mod 10"
      by (rule of_char_digit_char)
    show ?thesis
      using False by (subst itoa_unfold) (simp add: IH d)
  qed
qed

lemma itoa_inj: "itoa a = itoa b \<Longrightarrow> a = b"
  by (metis itoa_inverse)

lemma media_target_inj:
  assumes "media_target a f = media_target b f'" and "length f = length f'"
  shows "a = b \<and> f = f'"
proof -
  from assms(1) have "itoa a @ (''.'' @ f) = itoa b @ (''.'' @ f')"
    by (simp add: media_target_def)
  moreover have "length (''.'' @ f) = length (''.'' @ f')"
    using assms(2) by simp
  ultimately have "itoa a = itoa b \<and> ''.'' @ f = ''.'' @ f'"
    by (metis append_eq_append_conv)
  then show ?thesis
    by (simp add: itoa_inj)
qed

lemma AddImageSVG_invalid:
  assumes "svgData = [] \<or> pngFallback = [] \<or> width \<le> 0 \<or> height \<le> 0"
  shows "\<exists>msg. AddImageSVG env d svgData pngFallback width height = (Inl (ValidationError msg), d)"
  using assms by (auto simp add: AddImageSVG_def)

lemma AddImageSVG_valid:
  assumes "svgData \<noteq> []" and "pngFallback \<noteq> []" and "0 < width" and "0 < height"
  shows "AddImageSVG env d svgData pngFallback width height =
     (let pngImage = \<lparr>Size_X = width, Size_Y = height, Format = ''png'',
                      Data = Some pngFallback, Path = ''''\<rparr>;
          svgImage = \<lparr>Size_X = width, Size_Y = height, Format = ''svg'',
                      Data = Some svgData, Path = ''''\<rparr>;
          id1 = next_rel_id env (map IdAttr (docRels d));
          id2 = next_rel_id env (map IdAttr (docRels d) @ [id1]);
          t1 = media_target (Suc (length (Images d))) ''png'';
          t2 = media_target (Suc (Suc (length (Images d)))) ''svg''
      in (Inr (\<lparr>img = pngImage, relID = id1, target = t1\<rparr>,
               \<lparr>img = svgImage, relID = id2, target = t2\<rparr>),
          d\<lparr>Images := Images d @ [MakeImageRef pngImage, MakeImageRef svgImage],
            docRels := docRels d @ [\<lparr>IdAttr = id1, TargetAttr = t1, TypeAttr = ImageType\<rparr>,
                                    \<lparr>IdAttr = id2, TargetAttr = t2, TypeAttr = ImageType\<rparr>],
            ContentTypes := EnsureDefault (EnsureDefault (ContentTypes d) ''png''
                              (media_type env ''png'')) ''svg'' ''image/svg+xml''\<rparr>))"
  using assms
  by (simp add: AddImageSVG_def AddImage_def AddRelationship_def Let_def MakeImageRef_def
      SetRelID_def SetTarget_def)

lemma AddImageSVG_Inr_valid:
  assumes "fst (AddImageSVG env d svgData pngFallback width height) = Inr refs"
  shows "svgData \<noteq> [] \<and> pngFallback \<noteq> [] \<and> 0 < width \<and> 0 < height"
proof (rule ccontr)
  assume "\<not> (svgData \<noteq> [] \<and> pngFallback \<noteq> [] \<and> 0 < width \<and> 0 < height)"
  then have "svgData = [] \<or> pngFallback = [] \<or> width \<le> 0 \<or> height \<le> 0"
    by auto
  from AddImageSVG_invalid [OF this, of env d] assms show False
    by auto
qed

text \<open>
  Claim C6. \<open>AddImageSVG\<close> returns a validation error exactly when the SVG bytes are
  empty, the PNG bytes are empty, or the width or the height is not positive. These
  are its only error returns: the images it builds have no path, so the staging steps
  after the PNG asset is registered are never taken. On every error return the
  document (asset list, relationship set and content-type table) is the one before
  the call.
\<close>

theorem C6_validation_error:
  "((\<exists>e. fst (AddImageSVG env d svgData pngFallback width height) = Inl e \<and> is_ValidationError e)
      \<longleftrightarrow> (svgData = [] \<or> pngFallback = [] \<or> width \<le> 0 \<or> height \<le> 0)) \<and>
   ((\<exists>e. fst (AddImageSVG env d svgData pngFallback width height) = Inl e)
      \<longleftrightarrow> (svgData = [] \<or> pngFallback = [] \<or> width \<le> 0 \<or> height \<le> 0)) \<and>
   (\<forall>e. fst (AddImageSVG env d svgData pngFallback width height) = Inl e \<longrightarrow>
      snd (AddImageSVG env d svgData pngFallback width height) = d)"
proof (cases "svgData = [] \<or> pngFallback = [] \<or> width \<le> 0 \<or> height \<le> 0")
  case True
  from AddImageSVG_invalid [OF True, of env d]
  obtain msg where "AddImageSVG env d svgData pngFallback width height
      = (Inl (ValidationError msg), d)"
    by blast
  with True show ?thesis by simp
next
  case False
  then have v: "svgData \<noteq> []" "pngFallback \<noteq> []" "0 < width" "0 < height"
    by simp_all
  have "\<exists>refs. fst (AddImageSVG env d svgData pngFallback width height) = Inr refs"
    by (simp add: AddImageSVG_valid [OF v] Let_def)
  with False show ?thesis by auto
qed

theorem C6_validation_error_witness:
  "fst (AddImageSVG scenario_collaborators scenario_document [] [] 0 0)
     = Inl (ValidationError ''both SVG and PNG data are required'') \<and>
   snd (AddImageSVG scenario_collaborators scenario_document [] [] 0 0) = scenario_document \<and>
   fst (AddImageSVG scenario_collaborators scenario_document scenario_svg_bytes
          scenario_png_bytes 200 0)
     = Inl (ValidationError ''width and height must be positive'') \<and>
   snd (AddImageSVG scenario_collaborators scenario_document scenario_svg_bytes
          scenario_png_bytes 200 0) = scenario_document"
  using C6_validation_error [of scenario_collaborators scenario_document "[]" "[]" 0 0]
    C6_validation_error [of scenario_collaborators scenario_document scenario_svg_bytes
      scenario_png_bytes 200 0]
  by (simp add: AddImageSVG_def scenario_svg_bytes_def scenario_png_bytes_def)

lemma AddImageSVG_ids:
  assumes "fresh_ids env"
    and "AddImageSVG env d svgData pngFallback width height = (Inr (pngRef, svgRef), d1)"
  shows "map IdAttr (docRels d1) = map IdAttr (docRels d) @ [RelID pngRef, RelID svgRef] \<and>
         RelID pngRef \<noteq> '''' \<and> RelID svgRef \<noteq> '''' \<and> RelID pngRef \<noteq> RelID svgRef \<and>
         RelID pngRef \<notin> set (map IdAttr (docRels d)) \<and>
         RelID svgRef \<notin> set (map IdAttr (docRels d))"
proof -
  from assms(2) have "fst (AddImageSVG env d svgData pngFallback width height)
      = Inr (pngRef, svgRef)"
    by simp
  then have v: "svgData \<noteq> []" "pngFallback \<noteq> []" "0 < width" "0 < height"
    using AddImageSVG_Inr_valid by blast+
  define id1 where "id1 = next_rel_id env (map IdAttr (docRels d))"
  define id2 where "id2 = next_rel_id env (map IdAttr (docRels d) @ [id1])"
  from assms(2) have p: "RelID pngRef = id1" and s: "RelID svgRef = id2"
    and r: "map IdAttr (docRels d1) = map IdAttr (docRels d) @ [id1, id2]"
    unfolding AddImageSVG_valid [OF v] Let_def id1_def id2_def
    by (auto simp add: RelID_def)
  from assms(1) have f1: "id1 \<noteq> ''''" "id1 \<notin> set (map IdAttr (docRels d))"
    unfolding id1_def fresh_ids_def by blast+
  from assms(1) have f2: "id2 \<noteq> ''''" "id2 \<notin> set (map IdAttr (docRels d) @ [id1])"
    unfolding id2_def fresh_ids_def by blast+
  from f1 f2 show ?thesis
    by (auto simp add: p s r)
qed

lemma AddImageSVG_all_ids:
  assumes "fresh_ids env"
  shows "AddImageSVG_all env d calls = (Inr refs, d') \<Longrightarrow>
     map IdAttr (docRels d') = map IdAttr (docRels d) @ map RelID refs \<and>
     length refs = 2 * length calls \<and>
     (\<forall>r \<in> set refs. RelID r \<noteq> '''' \<and> RelID r \<notin> set (map IdAttr (docRels d))) \<and>
     distinct (map RelID refs)"
proof (induction calls arbitrary: d refs d')
  case Nil
  then show ?case by simp
next
  case (Cons c calls)
  obtain svgData pngFallback width height where c: "c = (svgData, pngFallback, width, height)"
    by (cases c) auto
  from Cons.prems obtain pngRef svgRef d1 rest where
    one: "AddImageSVG env d svgData pngFallback width height = (Inr (pngRef, svgRef), d1)"
    and more: "AddImageSVG_all env d1 calls = (Inr rest, d')"
    and refs: "refs = pngRef # svgRef # rest"
    by (auto simp add: c split: prod.splits sum.splits)
  note h = AddImageSVG_ids [OF assms one]
  note IH = Cons.IH [OF more]
  from IH have fresh_rest: "\<forall>r \<in> set rest. RelID r \<noteq> '''' \<and>
      RelID r \<notin> set (map IdAttr (docRels d)) \<and> RelID r \<noteq> RelID pngRef \<and> RelID r \<noteq> RelID svgRef"
    using h by auto
  have "map IdAttr (docRels d') = map IdAttr (docRels d) @ map RelID refs"
    using IH h by (simp add: refs)
  moreover have "length refs = 2 * length (c # calls)"
    using IH by (simp add: refs)
  moreover have "\<forall>r \<in> set refs. RelID r \<noteq> '''' \<and> RelID r \<notin> set (map IdAttr (docRels d))"
    using fresh_rest h by (simp add: refs)
  moreover have "distinct (map RelID refs)"
    using IH h fresh_rest by (auto simp add: refs)
  ultimately show ?case by blast
qed

lemma find_Some_set: "find P xs = Some x \<Longrightarrow> P x \<and> x \<in> set xs"
  by (induction xs) (auto split: if_splits)

lemma scenario_fresh_ids: "fresh_ids scenario_collaborators"
proof -
  have "scenario_next_rel_id ids \<noteq> '''' \<and> scenario_next_rel_id ids \<notin> set ids" for ids
  proof (cases "find (\<lambda>s. s \<notin> set ids)
             (map (\<lambda>k. ''rId'' @ itoa k) [Suc (length ids) ..< Suc (Suc (2 * length ids))])")
    case None
    have "length s < length (''rId'' @ concat ids)" if "s \<in> set ids" for s
    proof -
      from that have "length s \<le> sum_list (map length ids)"
        by (simp add: member_le_sum_list)
      then show ?thesis
        by (simp add: length_concat)
    qed
    then have "''rId'' @ concat ids \<notin> set ids"
      by blast
    with None show ?thesis
      by (simp add: scenario_next_rel_id_def)
  next
    case (Some s)
    then have "s \<notin> set ids \<and> s \<in> set (map (\<lambda>k. ''rId'' @ itoa k)
        [Suc (length ids) ..< Suc (Suc (2 * length ids))])"
      by (rule find_Some_set)
    then have "s \<notin> set ids" and "s \<noteq> ''''"
      by auto
    with Some show ?thesis
      by (simp add: scenario_next_rel_id_def)
  qed
  then show ?thesis
    by (simp add: fresh_ids_def scenario_collaborators_def)
qed

text \<open>
  Claim C5. Let the relationship set allocate tokens as the specification requires
  (never empty, never one it already holds). Then the two references of a successful
  \<open>AddImageSVG\<close> call have non-empty relationship ids that differ from each other; and
  after any sequence of successful registrations on one document the relationship ids
  of all references made are non-empty, pairwise distinct and new to the document: they
  are exactly the ids appended to the relationship set, so that the ids in the set stay
  pairwise distinct when they were so before.
\<close>

theorem C5_tokens_unique:
  assumes "fresh_ids env" and "fst (AddImageSVG_all env d calls) = Inr refs"
  shows "(\<forall>pngRef svgRef.
            fst (AddImageSVG env d svgData pngFallback width height) = Inr (pngRef, svgRef) \<longrightarrow>
            RelID pngRef \<noteq> '''' \<and> RelID svgRef \<noteq> '''' \<and> RelID pngRef \<noteq> RelID svgRef) \<and>
         length refs = 2 * length calls \<and>
         (\<forall>r \<in> set refs. RelID r \<noteq> '''' \<and> RelID r \<notin> set (map IdAttr (docRels d))) \<and>
         distinct (map RelID refs) \<and>
         map IdAttr (docRels (snd (AddImageSVG_all env d calls)))
           = map IdAttr (docRels d) @ map RelID refs \<and>
         (distinct (map IdAttr (docRels d)) \<longrightarrow>
            distinct (map IdAttr (docRels (snd (AddImageSVG_all env d calls)))))"
proof -
  have single: "RelID pngRef \<noteq> '''' \<and> RelID svgRef \<noteq> '''' \<and> RelID pngRef \<noteq> RelID svgRef"
    if "fst (AddImageSVG env d svgData pngFallback width height) = Inr (pngRef, svgRef)"
    for pngRef svgRef
  proof -
    from that have "AddImageSVG env d svgData pngFallback width height
        = (Inr (pngRef, svgRef), snd (AddImageSVG env d svgData pngFallback width height))"
      by (simp add: prod_eq_iff)
    from AddImageSVG_ids [OF assms(1) this] show ?thesis
      by simp
  qed
  from assms(2) have "AddImageSVG_all env d calls = (Inr refs, snd (AddImageSVG_all env d calls))"
    by (simp add: prod_eq_iff)
  note all = AddImageSVG_all_ids [OF assms(1) this]
  have disjoint: "set (map IdAttr (docRels d)) \<inter> set (map RelID refs) = {}"
  proof (rule ccontr)
    assume "set (map IdAttr (docRels d)) \<inter> set (map RelID refs) \<noteq> {}"
    then obtain x where x: "x \<in> set (map IdAttr (docRels d))" "x \<in> set (map RelID refs)"
      by blast
    from x(2) obtain r where r: "r \<in> set refs" "x = RelID r"
      by auto
    from all r(1) have "RelID r \<notin> set (map IdAttr (docRels d))"
      by blast
    with x(1) r(2) show False
      by simp
  qed
  have "distinct (map IdAttr (docRels (snd (AddImageSVG_all env d calls))))"
    if "distinct (map IdAttr (docRels d))"
  proof -
    have "distinct (map IdAttr (docRels d) @ map RelID refs)"
      using that all disjoint by (simp only: distinct_append)
    then show ?thesis
      using all by simp
  qed
  with single all show ?thesis
    by blast
qed

theorem C5_tokens_unique_witness:
  "fresh_ids scenario_collaborators \<and>
   fst (AddImageSVG_all scenario_collaborators scenario_document
          [(scenario_svg_bytes, scenario_png_bytes, 200, 100),
           (scenario_svg_bytes, scenario_png_bytes, 200, 100)])
     = Inr [\<lparr>img = \<lparr>Size_X = 200, Size_Y = 100, Format = ''png'',
                    Data = Some scenario_png_bytes, Path = ''''\<rparr>,
             relID = ''rId1'', target = ''media/image1.png''\<rparr>,
            \<lparr>img = \<lparr>Size_X = 200, Size_Y = 100, Format = ''svg'',
                    Data = Some scenario_svg_bytes, Path = ''''\<rparr>,
             relID = ''rId2'', target = ''media/image2.svg''\<rparr>,
            \<lparr>img = \<lparr>Size_X = 200, Size_Y = 100, Format = ''png'',
                    Data = Some scenario_png_bytes, Path = ''''\<rparr>,
             relID = ''rId3'', target = ''media/image3.png''\<rparr>,
            \<lparr>img = \<lparr>Size_X = 200, Size_Y = 100, Format = ''svg'',
                    Data = Some scenario_svg_bytes, Path = ''''\<rparr>,
             relID = ''rId4'', target = ''media/image4.svg''\<rparr>] \<and>
   map IdAttr (docRels (snd (AddImageSVG_all scenario_collaborators scenario_document
          [(scenario_svg_bytes, scenario_png_bytes, 200, 100),
           (scenario_svg_bytes, scenario_png_bytes, 200, 100)])))
     = [''rId1'', ''rId2'', ''rId3'', ''rId4''] \<and>
   distinct [''rId1'', ''rId2'', ''rId3'', ''rId4'']"
proof -
  have ev: "fst (AddImageSVG_all scenario_collaborators scenario_document
          [(scenario_svg_bytes, scenario_png_bytes, 200, 100),
           (scenario_svg_bytes, scenario_png_bytes, 200, 100)])
     = Inr [\<lparr>img = \<lparr>Size_X = 200, Size_Y = 100, Format = ''png'',
                    Data = Some scenario_png_bytes, Path = ''''\<rparr>,
             relID = ''rId1'', target = ''media/image1.png''\<rparr>,
            \<lparr>img = \<lparr>Size_X = 200, Size_Y = 100, Format = ''svg'',
                    Data = Some scenario_svg_bytes, Path = ''''\<rparr>,
             relID = ''rId2'', target = ''media/image2.svg''\<rparr>,
            \<lparr>img = \<lparr>Size_X = 200, Size_Y = 100, Format = ''png'',
                    Data = Some scenario_png_bytes, Path = ''''\<rparr>,
             relID = ''rId3'', target = ''media/image3.png''\<rparr>,
            \<lparr>img = \<lparr>Size_X = 200, Size_Y = 100, Format = ''svg'',
                    Data = Some scenario_svg_bytes, Path = ''''\<rparr>,
             relID = ''rId4'', target = ''media/image4.svg''\<rparr>]"
    by code_simp
  show ?thesis
    using scenario_fresh_ids ev
      C5_tokens_unique [OF scenario_fresh_ids ev, of scenario_svg_bytes scenario_png_bytes 200 100]
    by (simp add: scenario_document_def RelID_def)
qed

lemma EnsureDefault_present: "ext \<in> fst ` set cts \<Longrightarrow> EnsureDefault cts ext ct = cts"
  by (simp add: EnsureDefault_def)

lemma EnsureDefault_keys: "fst ` set (EnsureDefault cts ext ct) = insert ext (fst ` set cts)"
  by (auto simp add: EnsureDefault_def)

lemma EnsureDefault_distinct:
  "distinct (map fst cts) \<Longrightarrow> distinct (map fst (EnsureDefault cts ext ct))"
  by (auto simp add: EnsureDefault_def)

lemma EnsureDefault_twice:
  "EnsureDefault (EnsureDefault (EnsureDefault (EnsureDefault cts a x) b y) a x') b y'
     = EnsureDefault (EnsureDefault cts a x) b y"
  by (simp add: EnsureDefault_present EnsureDefault_keys)

lemma one_entry:
  "distinct (map fst cts) \<Longrightarrow> k \<in> fst ` set cts \<Longrightarrow> length [e \<leftarrow> cts. fst e = k] = 1"
proof (induction cts)
  case Nil
  then show ?case by simp
next
  case (Cons e cts)
  show ?case
  proof (cases "fst e = k")
    case True
    with Cons.prems have "k \<notin> fst ` set cts"
      by auto
    then have "[x \<leftarrow> cts. fst x = k] = []"
      by (auto simp add: filter_empty_conv)
    with True show ?thesis by simp
  next
    case False
    with Cons show ?thesis by auto
  qed
qed

lemma sequential_targets_above:
  "t \<in> set (sequential_targets n k) \<Longrightarrow>
   \<exists>j f. n < j \<and> length f = 3 \<and> t = media_target j f"
proof (induction k arbitrary: n)
  case 0
  then show ?case by simp
next
  case (Suc k)
  from Suc.prems consider "t = media_target (n + 1) ''png''" | "t = media_target (n + 2) ''svg''"
    | "t \<in> set (sequential_targets (n + 2) k)"
    by auto
  then show ?case
  proof cases
    case 1
    then show ?thesis by (intro exI [of _ "n + 1"] exI [of _ "''png''"]) simp
  next
    case 2
    then show ?thesis by (intro exI [of _ "n + 2"] exI [of _ "''svg''"]) simp
  next
    case 3
    from Suc.IH [OF 3] obtain j f where "n + 2 < j" "length f = 3" "t = media_target j f"
      by blast
    then show ?thesis
      by (intro exI [of _ j] exI [of _ f]) simp
  qed
qed

lemma sequential_targets_distinct: "distinct (sequential_targets n k)"
proof (induction k arbitrary: n)
  case 0
  show ?case by simp
next
  case (Suc k)
  have a: "media_target (n + 1) ''png'' \<noteq> media_target (n + 2) ''svg''"
    using media_target_inj [of "n + 1" "''png''" "n + 2" "''svg''"] by auto
  have b: "media_target j f \<notin> set (sequential_targets (n + 2) k)"
    if "j \<le> n + 2" "length f = 3" for j f
  proof
    assume "media_target j f \<in> set (sequential_targets (n + 2) k)"
    from sequential_targets_above [OF this]
    obtain j' f' where "n + 2 < j'" "length f' = 3" "media_target j f = media_target j' f'"
      by blast
    with that media_target_inj [of j f j' f'] show False
      by simp
  qed
  have "media_target (n + 1) ''png'' \<notin> set (sequential_targets (n + 2) k)"
    "media_target (n + 2) ''svg'' \<notin> set (sequential_targets (n + 2) k)"
    by (rule b; simp)+
  with a Suc.IH [of "n + 2"] show ?case
    by simp
qed

lemma AddImageSVG_all_valid:
  assumes "\<forall>(svgData, pngFallback, width, height) \<in> set calls.
             svgData \<noteq> [] \<and> pngFallback \<noteq> [] \<and> 0 < width \<and> 0 < height"
  shows "\<exists>refs d'. AddImageSVG_all env d calls = (Inr refs, d') \<and>
     length (Images d') = length (Images d) + 2 * length calls \<and>
     map target refs = sequential_targets (length (Images d)) (length calls) \<and>
     map TargetAttr (docRels d') = map TargetAttr (docRels d) @ map target refs \<and>
     ContentTypes d' =
       (if calls = [] then ContentTypes d
        else EnsureDefault (EnsureDefault (ContentTypes d) ''png'' (media_type env ''png''))
               ''svg'' ''image/svg+xml'')"
  using assms
proof (induction calls arbitrary: d)
  case Nil
  show ?case by simp
next
  case (Cons c calls)
  obtain svgData pngFallback width height where c: "c = (svgData, pngFallback, width, height)"
    by (cases c) auto
  from Cons.prems have v: "svgData \<noteq> []" "pngFallback \<noteq> []" "0 < width" "0 < height"
    by (simp_all add: c)
  from Cons.prems have rest: "\<forall>(svgData, pngFallback, width, height) \<in> set calls.
             svgData \<noteq> [] \<and> pngFallback \<noteq> [] \<and> 0 < width \<and> 0 < height"
    by simp
  obtain pngRef svgRef d1 where
    one: "AddImageSVG env d svgData pngFallback width height = (Inr (pngRef, svgRef), d1)"
    and imgs: "length (Images d1) = length (Images d) + 2"
    and tg: "target pngRef = media_target (length (Images d) + 1) ''png''"
      "target svgRef = media_target (length (Images d) + 2) ''svg''"
    and rl: "map TargetAttr (docRels d1)
        = map TargetAttr (docRels d) @ [target pngRef, target svgRef]"
    and ct: "ContentTypes d1 = EnsureDefault (EnsureDefault (ContentTypes d) ''png''
        (media_type env ''png'')) ''svg'' ''image/svg+xml''"
    by (simp add: AddImageSVG_valid [OF v] Let_def)
  from Cons.IH [OF rest, of d1] obtain refs d' where
    more: "AddImageSVG_all env d1 calls = (Inr refs, d')"
    and IH: "length (Images d') = length (Images d1) + 2 * length calls"
      "map target refs = sequential_targets (length (Images d1)) (length calls)"
      "map TargetAttr (docRels d') = map TargetAttr (docRels d1) @ map target refs"
      "ContentTypes d' =
       (if calls = [] then ContentTypes d1
        else EnsureDefault (EnsureDefault (ContentTypes d1) ''png'' (media_type env ''png''))
               ''svg'' ''image/svg+xml'')"
    by blast
  have "AddImageSVG_all env d (c # calls) = (Inr (pngRef # svgRef # refs), d')"
    by (simp add: c one more)
  moreover have "length (Images d') = length (Images d) + 2 * length (c # calls)"
    using IH(1) imgs by simp
  moreover have "map target (pngRef # svgRef # refs)
      = sequential_targets (length (Images d)) (length (c # calls))"
    using IH(2) imgs tg by simp
  moreover have "map TargetAttr (docRels d')
      = map TargetAttr (docRels d) @ map target (pngRef # svgRef # refs)"
    using IH(3) rl by simp
  moreover have "ContentTypes d' =
       EnsureDefault (EnsureDefault (ContentTypes d) ''png'' (media_type env ''png''))
               ''svg'' ''image/svg+xml''"
    using IH(4) ct by (simp add: EnsureDefault_twice)
  ultimately show ?case
    by simp
qed

lemma AddImageSVG_all_assets:
  assumes "\<forall>(svgData, pngFallback, width, height) \<in> set calls.
             svgData \<noteq> [] \<and> pngFallback \<noteq> [] \<and> 0 < width \<and> 0 < height"
  shows "\<exists>refs d'. AddImageSVG_all env d calls = (Inr refs, d') \<and>
     map img refs =
       concat (map (\<lambda>(svgData, pngFallback, width, height).
                 [\<lparr>Size_X = width, Size_Y = height, Format = ''png'',
                    Data = Some pngFallback, Path = ''''\<rparr>,
                  \<lparr>Size_X = width, Size_Y = height, Format = ''svg'',
                    Data = Some svgData, Path = ''''\<rparr>]) calls) \<and>
     Images d' = Images d @ map MakeImageRef (map img refs) \<and>
     docRels d' = docRels d @
       map (\<lambda>r. \<lparr>IdAttr = RelID r, TargetAttr = target r, TypeAttr = ImageType\<rparr>) refs"
  using assms
proof (induction calls arbitrary: d)
  case Nil
  show ?case by simp
next
  case (Cons c calls)
  obtain svgData pngFallback width height where c: "c = (svgData, pngFallback, width, height)"
    by (cases c) auto
  from Cons.prems have v: "svgData \<noteq> []" "pngFallback \<noteq> []" "0 < width" "0 < height"
    by (simp_all add: c)
  from Cons.prems have rest: "\<forall>(svgData, pngFallback, width, height) \<in> set calls.
             svgData \<noteq> [] \<and> pngFallback \<noteq> [] \<and> 0 < width \<and> 0 < height"
    by simp
  let ?png = "\<lparr>Size_X = width, Size_Y = height, Format = ''png'',
                Data = Some pngFallback, Path = ''''\<rparr>"
  let ?svg = "\<lparr>Size_X = width, Size_Y = height, Format = ''svg'',
                Data = Some svgData, Path = ''''\<rparr>"
  define pngRef where "pngRef = \<lparr>img = ?png, relID = next_rel_id env (map IdAttr (docRels d)),
      target = media_target (Suc (length (Images d))) ''png''\<rparr>"
  define svgRef where "svgRef = \<lparr>img = ?svg,
      relID = next_rel_id env (map IdAttr (docRels d) @ [relID pngRef]),
      target = media_target (Suc (Suc (length (Images d)))) ''svg''\<rparr>"
  define d1 where "d1 = snd (AddImageSVG env d svgData pngFallback width height)"
  have one: "AddImageSVG env d svgData pngFallback width height = (Inr (pngRef, svgRef), d1)"
    by (simp add: AddImageSVG_valid [OF v] Let_def pngRef_def svgRef_def d1_def)
  have im: "img pngRef = ?png" "img svgRef = ?svg"
    by (simp_all add: pngRef_def svgRef_def)
  have imgs: "Images d1 = Images d @ [MakeImageRef ?png, MakeImageRef ?svg]"
    by (simp add: AddImageSVG_valid [OF v] Let_def d1_def)
  have rl: "docRels d1 = docRels d @
        [\<lparr>IdAttr = RelID pngRef, TargetAttr = target pngRef, TypeAttr = ImageType\<rparr>,
         \<lparr>IdAttr = RelID svgRef, TargetAttr = target svgRef, TypeAttr = ImageType\<rparr>]"
    by (simp add: AddImageSVG_valid [OF v] Let_def d1_def RelID_def pngRef_def svgRef_def)
  from Cons.IH [OF rest, of d1] obtain refs d' where
    more: "AddImageSVG_all env d1 calls = (Inr refs, d')"
    and IH: "map img refs =
       concat (map (\<lambda>(svgData, pngFallback, width, height).
                 [\<lparr>Size_X = width, Size_Y = height, Format = ''png'',
                    Data = Some pngFallback, Path = ''''\<rparr>,
                  \<lparr>Size_X = width, Size_Y = height, Format = ''svg'',
                    Data = Some svgData, Path = ''''\<rparr>]) calls)"
      "Images d' = Images d1 @ map MakeImageRef (map img refs)"
      "docRels d' = docRels d1 @
         map (\<lambda>r. \<lparr>IdAttr = RelID r, TargetAttr = target r, TypeAttr = ImageType\<rparr>) refs"
    by blast
  have "AddImageSVG_all env d (c # calls) = (Inr (pngRef # svgRef # refs), d')"
    by (simp add: c one more)
  moreover have "map img (pngRef # svgRef # refs) =
       concat (map (\<lambda>(svgData, pngFallback, width, height).
                 [\<lparr>Size_X = width, Size_Y = height, Format = ''png'',
                    Data = Some pngFallback, Path = ''''\<rparr>,
                  \<lparr>Size_X = width, Size_Y = height, Format = ''svg'',
                    Data = Some svgData, Path = ''''\<rparr>]) (c # calls))"
    using IH(1) im by (simp add: c)
  moreover have "Images d' = Images d @ map MakeImageRef (map img (pngRef # svgRef # refs))"
    using IH(2) imgs im by simp
  moreover have "docRels d' = docRels d @
       map (\<lambda>r. \<lparr>IdAttr = RelID r, TargetAttr = target r, TypeAttr = ImageType\<rparr>)
         (pngRef # svgRef # refs)"
    using IH(3) rl by simp
  ultimately show ?case
    by blast
qed

text \<open>
  Claim C8. Let the relationship set allocate tokens as the specification requires.
  For every \<open>N \<ge> 1\<close>, \<open>N\<close> calls of \<open>AddImageSVG\<close> with non-empty bytes and positive
  sizes on one document all succeed and return \<open>2 * N\<close> references: for each call, in
  order, the reference of its PNG image and then the reference of its SVG image. The
  asset list grows by exactly the \<open>2 * N\<close> handles of these images, in the same order;
  a handle is stored as it is made, before its token and target are set, so the
  assets are told apart by their place in the list, their target and their token. The
  relationship set grows by exactly \<open>2 * N\<close> image relationships, one for each
  reference, with its token and its target. The targets are the sequentially named
  ones, pairwise distinct; the tokens are non-empty, pairwise distinct and new to the
  document. The content-type table is the one a single call leaves: the table before
  with \<^verbatim>\<open>png\<close> and \<^verbatim>\<open>svg\<close> ensured; when its tags were distinct before they are distinct
  after, with exactly one entry for \<^verbatim>\<open>png\<close> and exactly one for \<^verbatim>\<open>svg\<close>, whatever \<open>N\<close> is.
\<close>

theorem C8_repeated_registration:
  assumes "calls \<noteq> []"
    and "\<forall>(svgData, pngFallback, width, height) \<in> set calls.
           svgData \<noteq> [] \<and> pngFallback \<noteq> [] \<and> 0 < width \<and> 0 < height"
    and "fresh_ids env"
  shows "\<exists>refs. fst (AddImageSVG_all env d calls) = Inr refs \<and>
     length refs = 2 * length calls \<and>
     map img refs =
       concat (map (\<lambda>(svgData, pngFallback, width, height).
                 [\<lparr>Size_X = width, Size_Y = height, Format = ''png'',
                    Data = Some pngFallback, Path = ''''\<rparr>,
                  \<lparr>Size_X = width, Size_Y = height, Format = ''svg'',
                    Data = Some svgData, Path = ''''\<rparr>]) calls) \<and>
     Images (snd (AddImageSVG_all env d calls))
       = Images d @ map MakeImageRef (map img refs) \<and>
     length (Images (snd (AddImageSVG_all env d calls)))
       = length (Images d) + 2 * length calls \<and>
     docRels (snd (AddImageSVG_all env d calls))
       = docRels d @
         map (\<lambda>r. \<lparr>IdAttr = RelID r, TargetAttr = target r, TypeAttr = ImageType\<rparr>) refs \<and>
     map target refs = sequential_targets (length (Images d)) (length calls) \<and>
     distinct (map target refs) \<and>
     distinct (map RelID refs) \<and>
     (\<forall>r \<in> set refs. RelID r \<noteq> '''' \<and> RelID r \<notin> set (map IdAttr (docRels d))) \<and>
     map TargetAttr (docRels (snd (AddImageSVG_all env d calls)))
       = map TargetAttr (docRels d) @ map target refs \<and>
     map IdAttr (docRels (snd (AddImageSVG_all env d calls)))
       = map IdAttr (docRels d) @ map RelID refs \<and>
     ContentTypes (snd (AddImageSVG_all env d calls))
       = EnsureDefault (EnsureDefault (ContentTypes d) ''png'' (media_type env ''png''))
           ''svg'' ''image/svg+xml'' \<and>
     (distinct (map fst (ContentTypes d)) \<longrightarrow>
        distinct (map fst (ContentTypes (snd (AddImageSVG_all env d calls)))) \<and>
        length [e \<leftarrow> ContentTypes (snd (AddImageSVG_all env d calls)). fst e = ''png''] = 1 \<and>
        length [e \<leftarrow> ContentTypes (snd (AddImageSVG_all env d calls)). fst e = ''svg''] = 1)"
proof -
  from AddImageSVG_all_valid [OF assms(2), of env d] obtain refs d' where
    run: "AddImageSVG_all env d calls = (Inr refs, d')"
    and imgs: "length (Images d') = length (Images d) + 2 * length calls"
    and tg: "map target refs = sequential_targets (length (Images d)) (length calls)"
    and rl: "map TargetAttr (docRels d') = map TargetAttr (docRels d) @ map target refs"
    and ct: "ContentTypes d' =
       EnsureDefault (EnsureDefault (ContentTypes d) ''png'' (media_type env ''png''))
               ''svg'' ''image/svg+xml''"
    using assms(1) by auto
  from AddImageSVG_all_assets [OF assms(2), of env d] obtain refs2 d2 where
    run2: "AddImageSVG_all env d calls = (Inr refs2, d2)"
    and assets2: "map img refs2 =
       concat (map (\<lambda>(svgData, pngFallback, width, height).
                 [\<lparr>Size_X = width, Size_Y = height, Format = ''png'',
                    Data = Some pngFallback, Path = ''''\<rparr>,
                  \<lparr>Size_X = width, Size_Y = height, Format = ''svg'',
                    Data = Some svgData, Path = ''''\<rparr>]) calls)"
      "Images d2 = Images d @ map MakeImageRef (map img refs2)"
      "docRels d2 = docRels d @
         map (\<lambda>r. \<lparr>IdAttr = RelID r, TargetAttr = target r, TypeAttr = ImageType\<rparr>) refs2"
    by blast
  from run run2 have same: "refs2 = refs" "d2 = d'"
    by simp_all
  note assets = assets2 [unfolded same]
  note ids = AddImageSVG_all_ids [OF assms(3) run]
  have dt: "distinct (map target refs)"
    by (simp only: tg sequential_targets_distinct)
  have keys: "''png'' \<in> fst ` set (ContentTypes d')" "''svg'' \<in> fst ` set (ContentTypes d')"
    by (simp_all add: ct EnsureDefault_keys)
  have tags: "distinct (map fst (ContentTypes d')) \<and>
        length [e \<leftarrow> ContentTypes d'. fst e = ''png''] = 1 \<and>
        length [e \<leftarrow> ContentTypes d'. fst e = ''svg''] = 1"
    if "distinct (map fst (ContentTypes d))"
  proof -
    from that have "distinct (map fst (ContentTypes d'))"
      by (simp only: ct EnsureDefault_distinct)
    with keys show ?thesis
      by (simp add: one_entry)
  qed
  show ?thesis
    unfolding run fst_conv snd_conv
  proof (intro exI [of _ refs] conjI)
    show "Inr refs = Inr refs" ..
    show "length refs = 2 * length calls"
      using ids by simp
    show "distinct (map RelID refs)"
      using ids by simp
    show "\<forall>r \<in> set refs. RelID r \<noteq> '''' \<and> RelID r \<notin> set (map IdAttr (docRels d))"
      using ids by simp
    show "map IdAttr (docRels d') = map IdAttr (docRels d) @ map RelID refs"
      using ids by simp
    show "distinct (map fst (ContentTypes d)) \<longrightarrow>
        distinct (map fst (ContentTypes d')) \<and>
        length [e \<leftarrow> ContentTypes d'. fst e = ''png''] = 1 \<and>
        length [e \<leftarrow> ContentTypes d'. fst e = ''svg''] = 1"
      using tags by blast
  qed (rule assets imgs tg rl ct dt)+
qed

theorem C8_repeated_registration_witness:
  "scenario_svg_bytes \<noteq> [] \<and> scenario_png_bytes \<noteq> [] \<and> fresh_ids scenario_collaborators \<and>
   AddImageSVG_all scenario_collaborators scenario_document
      [(scenario_svg_bytes, scenario_png_bytes, 100, 100),
       (scenario_svg_bytes, scenario_png_bytes, 100, 100),
       (scenario_svg_bytes, scenario_png_bytes, 100, 100)]
     = (Inr [\<lparr>img = \<lparr>Size_X = 100, Size_Y = 100, Format = ''png'',
                      Data = Some scenario_png_bytes, Path = ''''\<rparr>,
               relID = ''rId1'', target = ''media/image1.png''\<rparr>,
              \<lparr>img = \<lparr>Size_X = 100, Size_Y = 100, Format = ''svg'',
                      Data = Some scenario_svg_bytes, Path = ''''\<rparr>,
               relID = ''rId2'', target = ''media/image2.svg''\<rparr>,
              \<lparr>img = \<lparr>Size_X = 100, Size_Y = 100, Format = ''png'',
                      Data = Some scenario_png_bytes, Path = ''''\<rparr>,
               relID = ''rId3'', target = ''media/image3.png''\<rparr>,
              \<lparr>img = \<lparr>Size_X = 100, Size_Y = 100, Format = ''svg'',
                      Data = Some scenario_svg_bytes, Path = ''''\<rparr>,
               relID = ''rId4'', target = ''media/image4.svg''\<rparr>,
              \<lparr>img = \<lparr>Size_X = 100, Size_Y = 100, Format = ''png'',
                      Data = Some scenario_png_bytes, Path = ''''\<rparr>,
               relID = ''rId5'', target = ''media/image5.png''\<rparr>,
              \<lparr>img = \<lparr>Size_X = 100, Size_Y = 100, Format = ''svg'',
                      Data = Some scenario_svg_bytes, Path = ''''\<rparr>,
               relID = ''rId6'', target = ''media/image6.svg''\<rparr>],
        \<lparr>Images =
           [MakeImageRef \<lparr>Size_X = 100, Size_Y = 100, Format = ''png'',
                           Data = Some scenario_png_bytes, Path = ''''\<rparr>,
            MakeImageRef \<lparr>Size_X = 100, Size_Y = 100, Format = ''svg'',
                           Data = Some scenario_svg_bytes, Path = ''''\<rparr>,
            MakeImageRef \<lparr>Size_X = 100, Size_Y = 100, Format = ''png'',
                           Data = Some scenario_png_bytes, Path = ''''\<rparr>,
            MakeImageRef \<lparr>Size_X = 100, Size_Y = 100, Format = ''svg'',
                           Data = Some scenario_svg_bytes, Path = ''''\<rparr>,
            MakeImageRef \<lparr>Size_X = 100, Size_Y = 100, Format = ''png'',
                           Data = Some scenario_png_bytes, Path = ''''\<rparr>,
            MakeImageRef \<lparr>Size_X = 100, Size_Y = 100, Format = ''svg'',
                           Data = Some scenario_svg_bytes, Path = ''''\<rparr>],
         docRels =
           [\<lparr>IdAttr = ''rId1'', TargetAttr = ''media/image1.png'', TypeAttr = ImageType\<rparr>,
            \<lparr>IdAttr = ''rId2'', TargetAttr = ''media/image2.svg'', TypeAttr = ImageType\<rparr>,
            \<lparr>IdAttr = ''rId3'', TargetAttr = ''media/image3.png'', TypeAttr = ImageType\<rparr>,
            \<lparr>IdAttr = ''rId4'', TargetAttr = ''media/image4.svg'', TypeAttr = ImageType\<rparr>,
            \<lparr>IdAttr = ''rId5'', TargetAttr = ''media/image5.png'', TypeAttr = ImageType\<rparr>,
            \<lparr>IdAttr = ''rId6'', TargetAttr = ''media/image6.svg'', TypeAttr = ImageType\<rparr>],
         ContentTypes = [(''png'', ''image/png''), (''svg'', ''image/svg+xml'')]\<rparr>) \<and>
   length (Images (snd (AddImageSVG_all scenario_collaborators scenario_document
      [(scenario_svg_bytes, scenario_png_bytes, 100, 100),
       (scenario_svg_bytes, scenario_png_bytes, 100, 100),
       (scenario_svg_bytes, scenario_png_bytes, 100, 100)]))) = 6 \<and>
   sequential_targets 0 3
     = [''media/image1.png'', ''media/image2.svg'', ''media/image3.png'',
        ''media/image4.svg'', ''media/image5.png'', ''media/image6.svg''] \<and>
   distinct [''media/image1.png'', ''media/image2.svg'', ''media/image3.png'',
             ''media/image4.svg'', ''media/image5.png'', ''media/image6.svg''] \<and>
   distinct [''rId1'', ''rId2'', ''rId3'', ''rId4'', ''rId5'', ''rId6'']"
proof -
  let ?calls = "[(scenario_svg_bytes, scenario_png_bytes, 100, 100),
       (scenario_svg_bytes, scenario_png_bytes, 100, 100),
       (scenario_svg_bytes, scenario_png_bytes, 100 :: int, 100 :: int)]"
  have b: "scenario_svg_bytes \<noteq> []" "scenario_png_bytes \<noteq> []"
    by (simp_all add: scenario_svg_bytes_def scenario_png_bytes_def)
  have ne: "?calls \<noteq> []"
    by simp
  have v: "\<forall>(svgData, pngFallback, width, height) \<in> set ?calls.
           svgData \<noteq> [] \<and> pngFallback \<noteq> [] \<and> 0 < width \<and> 0 < height"
    using b by simp
  have st: "media_target (Suc 0) ''png'' = ''media/image1.png''"
    "media_target (Suc (Suc 0)) ''svg'' = ''media/image2.svg''"
    "media_target (Suc (Suc (Suc 0))) ''png'' = ''media/image3.png''"
    "media_target (Suc (Suc (Suc (Suc 0)))) ''svg'' = ''media/image4.svg''"
    "media_target (Suc (Suc (Suc (Suc (Suc 0))))) ''png'' = ''media/image5.png''"
    "media_target (Suc (Suc (Suc (Suc (Suc (Suc 0)))))) ''svg'' = ''media/image6.svg''"
    by code_simp+
  have ids: "scenario_next_rel_id [] = ''rId1''"
    "scenario_next_rel_id [''rId1''] = ''rId2''"
    "scenario_next_rel_id [''rId1'', ''rId2''] = ''rId3''"
    "scenario_next_rel_id [''rId1'', ''rId2'', ''rId3''] = ''rId4''"
    "scenario_next_rel_id [''rId1'', ''rId2'', ''rId3'', ''rId4''] = ''rId5''"
    "scenario_next_rel_id [''rId1'', ''rId2'', ''rId3'', ''rId4'', ''rId5''] = ''rId6''"
    by code_simp+
  have ct: "EnsureDefault [] ''png'' ''image/png'' = [(''png'', ''image/png'')]"
    "EnsureDefault [(''png'', ''image/png'')] ''svg'' ''image/svg+xml''
      = [(''png'', ''image/png''), (''svg'', ''image/svg+xml'')]"
    "EnsureDefault [(''png'', ''image/png''), (''svg'', ''image/svg+xml'')] ''png'' ''image/png''
      = [(''png'', ''image/png''), (''svg'', ''image/svg+xml'')]"
    "EnsureDefault [(''png'', ''image/png''), (''svg'', ''image/svg+xml'')] ''svg'' ''image/svg+xml''
      = [(''png'', ''image/png''), (''svg'', ''image/svg+xml'')]"
    by (simp_all add: EnsureDefault_def)
  have one: "AddImageSVG scenario_collaborators d scenario_svg_bytes scenario_png_bytes 100 100 =
     (let pngImage = \<lparr>Size_X = 100, Size_Y = 100, Format = ''png'',
                      Data = Some scenario_png_bytes, Path = ''''\<rparr>;
          svgImage = \<lparr>Size_X = 100, Size_Y = 100, Format = ''svg'',
                      Data = Some scenario_svg_bytes, Path = ''''\<rparr>;
          id1 = scenario_next_rel_id (map IdAttr (docRels d));
          id2 = scenario_next_rel_id (map IdAttr (docRels d) @ [id1]);
          t1 = media_target (Suc (length (Images d))) ''png'';
          t2 = media_target (Suc (Suc (length (Images d)))) ''svg''
      in (Inr (\<lparr>img = pngImage, relID = id1, target = t1\<rparr>,
               \<lparr>img = svgImage, relID = id2, target = t2\<rparr>),
          d\<lparr>Images := Images d @ [MakeImageRef pngImage, MakeImageRef svgImage],
            docRels := docRels d @ [\<lparr>IdAttr = id1, TargetAttr = t1, TypeAttr = ImageType\<rparr>,
                                    \<lparr>IdAttr = id2, TargetAttr = t2, TypeAttr = ImageType\<rparr>],
            ContentTypes := EnsureDefault (EnsureDefault (ContentTypes d) ''png'' ''image/png'')
                              ''svg'' ''image/svg+xml''\<rparr>))" for d
    using AddImageSVG_valid [OF b, of 100 100 scenario_collaborators d]
    by (simp add: scenario_collaborators_def)
  have ev: "AddImageSVG_all scenario_collaborators scenario_document ?calls
     = (Inr [\<lparr>img = \<lparr>Size_X = 100, Size_Y = 100, Format = ''png'',
                      Data = Some scenario_png_bytes, Path = ''''\<rparr>,
               relID = ''rId1'', target = ''media/image1.png''\<rparr>,
              \<lparr>img = \<lparr>Size_X = 100, Size_Y = 100, Format = ''svg'',
                      Data = Some scenario_svg_bytes, Path = ''''\<rparr>,
               relID = ''rId2'', target = ''media/image2.svg''\<rparr>,
              \<lparr>img = \<lparr>Size_X = 100, Size_Y = 100, Format = ''png'',
                      Data = Some scenario_png_bytes, Path = ''''\<rparr>,
               relID = ''rId3'', target = ''media/image3.png''\<rparr>,
              \<lparr>img = \<lparr>Size_X = 100, Size_Y = 100, Format = ''svg'',
                      Data = Some scenario_svg_bytes, Path = ''''\<rparr>,
               relID = ''rId4'', target = ''media/image4.svg''\<rparr>,
              \<lparr>img = \<lparr>Size_X = 100, Size_Y = 100, Format = ''png'',
                      Data = Some scenario_png_bytes, Path = ''''\<rparr>,
               relID = ''rId5'', target = ''media/image5.png''\<rparr>,
              \<lparr>img = \<lparr>Size_X = 100, Size_Y = 100, Format = ''svg'',
                      Data = Some scenario_svg_bytes, Path = ''''\<rparr>,
               relID = ''rId6'', target = ''media/image6.svg''\<rparr>],
        \<lparr>Images =
           [MakeImageRef \<lparr>Size_X = 100, Size_Y = 100, Format = ''png'',
                           Data = Some scenario_png_bytes, Path = ''''\<rparr>,
            MakeImageRef \<lparr>Size_X = 100, Size_Y = 100, Format = ''svg'',
                           Data = Some scenario_svg_bytes, Path = ''''\<rparr>,
            MakeImageRef \<lparr>Size_X = 100, Size_Y = 100, Format = ''png'',
                           Data = Some scenario_png_bytes, Path = ''''\<rparr>,
            MakeImageRef \<lparr>Size_X = 100, Size_Y = 100, Format = ''svg'',
                           Data = Some scenario_svg_bytes, Path = ''''\<rparr>,
            MakeImageRef \<lparr>Size_X = 100, Size_Y = 100, Format = ''png'',
                           Data = Some scenario_png_bytes, Path = ''''\<rparr>,
            MakeImageRef \<lparr>Size_X = 100, Size_Y = 100, Format = ''svg'',
                           Data = Some scenario_svg_bytes, Path = ''''\<rparr>],
         docRels =
           [\<lparr>IdAttr = ''rId1'', TargetAttr = ''media/image1.png'', TypeAttr = ImageType\<rparr>,
            \<lparr>IdAttr = ''rId2'', TargetAttr = ''media/image2.svg'', TypeAttr = ImageType\<rparr>,
            \<lparr>IdAttr = ''rId3'', TargetAttr = ''media/image3.png'', TypeAttr = ImageType\<rparr>,
            \<lparr>IdAttr = ''rId4'', TargetAttr = ''media/image4.svg'', TypeAttr = ImageType\<rparr>,
            \<lparr>IdAttr = ''rId5'', TargetAttr = ''media/image5.png'', TypeAttr = ImageType\<rparr>,
            \<lparr>IdAttr = ''rId6'', TargetAttr = ''media/image6.svg'', TypeAttr = ImageType\<rparr>],
         ContentTypes = [(''png'', ''image/png''), (''svg'', ''image/svg+xml'')]\<rparr>)"
    by (simp add: one Let_def scenario_document_def st ids ct)
  have sq: "sequential_targets 0 3
     = [''media/image1.png'', ''media/image2.svg'', ''media/image3.png'',
        ''media/image4.svg'', ''media/image5.png'', ''media/image6.svg'']"
    by (simp add: numeral_3_eq_3 st)
  note inst = C8_repeated_registration [OF ne v scenario_fresh_ids, of scenario_document]
  from inst have "length (Images (snd (AddImageSVG_all scenario_collaborators scenario_document
      ?calls))) = length (Images scenario_document) + 2 * length ?calls"
    by blast
  then have ln: "length (Images (snd (AddImageSVG_all scenario_collaborators scenario_document
      ?calls))) = 6"
    by (simp add: scenario_document_def del: AddImageSVG_all.simps)
  show ?thesis
    by (intro conjI b scenario_fresh_ids ev sq ln) (simp_all (no_asm))
qed

end
